theory Spec2Isabelle
  imports Main "HOL-Library.Word" "HOL-Library.AList"
begin

section \<open>The snapshot model (package io_prometheus_client)\<close>

text \<open>
  The exporter in \<^verbatim>\<open>remotewrite.go\<close> reads the protobuf structs of the Prometheus client
  model. A Go pointer is an \<open>option\<close> (\<open>None\<close> is \<^verbatim>\<open>nil\<close>), a slice is a list. A
  \<^verbatim>\<open>float64\<close> is carried as its 64-bit IEEE pattern: the exporter only copies such
  values, and the literal \<^verbatim>\<open>0.0\<close> is the all-zero pattern. Record fields carry the name
  of their struct as a prefix, since several structs have a field \<^verbatim>\<open>Name\<close> or
  \<^verbatim>\<open>Value\<close>. Only the fields the exporter reads are kept.
\<close>

type_synonym float64 = "64 word"
type_synonym int64 = "64 word"
type_synonym byte = "8 word"

text \<open>\<^verbatim>\<open>MetricType\<close> is an \<^verbatim>\<open>int32\<close> with named values.\<close>

type_synonym MetricType = "32 word"

definition MetricType_COUNTER :: MetricType where "MetricType_COUNTER = 0"
definition MetricType_GAUGE :: MetricType where "MetricType_GAUGE = 1"
definition MetricType_SUMMARY :: MetricType where "MetricType_SUMMARY = 2"
definition MetricType_UNTYPED :: MetricType where "MetricType_UNTYPED = 3"
definition MetricType_HISTOGRAM :: MetricType where "MetricType_HISTOGRAM = 4"
definition MetricType_GAUGE_HISTOGRAM :: MetricType where "MetricType_GAUGE_HISTOGRAM = 5"

record LabelPair =
  LabelPair_Name :: "string option"
  LabelPair_Value :: "string option"

record Counter =
  Counter_Value :: "float64 option"

record Gauge =
  Gauge_Value :: "float64 option"

record Untyped =
  Untyped_Value :: "float64 option"

record Summary =
  Summary_SampleCount :: "64 word option"
  Summary_SampleSum :: "float64 option"

record Histogram =
  Histogram_SampleCount :: "64 word option"
  Histogram_SampleSum :: "float64 option"

record Metric =
  Metric_Label :: "LabelPair option list"
  Metric_Gauge :: "Gauge option"
  Metric_Counter :: "Counter option"
  Metric_Summary :: "Summary option"
  Metric_Untyped :: "Untyped option"
  Metric_Histogram :: "Histogram option"

record MetricFamily =
  MetricFamily_Name :: "string option"
  MetricFamily_Type :: "MetricType option"
  MetricFamily_Metric :: "Metric option list"

text \<open>
  The generated getters accept a \<^verbatim>\<open>nil\<close> receiver and an unset field, and then return the
  zero value of the result type.
\<close>

definition MetricFamily_GetName :: "MetricFamily option \<Rightarrow> string" where
  "MetricFamily_GetName x =
     (case x of None \<Rightarrow> [] | Some f \<Rightarrow> (case MetricFamily_Name f of None \<Rightarrow> [] | Some n \<Rightarrow> n))"

definition LabelPair_GetName :: "LabelPair option \<Rightarrow> string" where
  "LabelPair_GetName x =
     (case x of None \<Rightarrow> [] | Some l \<Rightarrow> (case LabelPair_Name l of None \<Rightarrow> [] | Some n \<Rightarrow> n))"

definition LabelPair_GetValue :: "LabelPair option \<Rightarrow> string" where
  "LabelPair_GetValue x =
     (case x of None \<Rightarrow> [] | Some l \<Rightarrow> (case LabelPair_Value l of None \<Rightarrow> [] | Some v \<Rightarrow> v))"

definition Metric_GetCounter :: "Metric option \<Rightarrow> Counter option" where
  "Metric_GetCounter x = (case x of None \<Rightarrow> None | Some m \<Rightarrow> Metric_Counter m)"

definition Metric_GetGauge :: "Metric option \<Rightarrow> Gauge option" where
  "Metric_GetGauge x = (case x of None \<Rightarrow> None | Some m \<Rightarrow> Metric_Gauge m)"

definition Metric_GetUntyped :: "Metric option \<Rightarrow> Untyped option" where
  "Metric_GetUntyped x = (case x of None \<Rightarrow> None | Some m \<Rightarrow> Metric_Untyped m)"

definition Metric_GetSummary :: "Metric option \<Rightarrow> Summary option" where
  "Metric_GetSummary x = (case x of None \<Rightarrow> None | Some m \<Rightarrow> Metric_Summary m)"

definition Metric_GetHistogram :: "Metric option \<Rightarrow> Histogram option" where
  "Metric_GetHistogram x = (case x of None \<Rightarrow> None | Some m \<Rightarrow> Metric_Histogram m)"

definition Counter_GetValue :: "Counter option \<Rightarrow> float64" where
  "Counter_GetValue x =
     (case x of None \<Rightarrow> 0 | Some c \<Rightarrow> (case Counter_Value c of None \<Rightarrow> 0 | Some v \<Rightarrow> v))"

definition Gauge_GetValue :: "Gauge option \<Rightarrow> float64" where
  "Gauge_GetValue x =
     (case x of None \<Rightarrow> 0 | Some g \<Rightarrow> (case Gauge_Value g of None \<Rightarrow> 0 | Some v \<Rightarrow> v))"

definition Untyped_GetValue :: "Untyped option \<Rightarrow> float64" where
  "Untyped_GetValue x =
     (case x of None \<Rightarrow> 0 | Some u \<Rightarrow> (case Untyped_Value u of None \<Rightarrow> 0 | Some v \<Rightarrow> v))"

definition Summary_GetSampleSum :: "Summary option \<Rightarrow> float64" where
  "Summary_GetSampleSum x =
     (case x of None \<Rightarrow> 0 | Some s \<Rightarrow> (case Summary_SampleSum s of None \<Rightarrow> 0 | Some v \<Rightarrow> v))"

definition Histogram_GetSampleSum :: "Histogram option \<Rightarrow> float64" where
  "Histogram_GetSampleSum x =
     (case x of None \<Rightarrow> 0 | Some h \<Rightarrow> (case Histogram_SampleSum h of None \<Rightarrow> 0 | Some v \<Rightarrow> v))"

section \<open>The wire model (package prompb)\<close>

record Label =
  Label_Name :: string
  Label_Value :: string

record Sample =
  Sample_Value :: float64
  Sample_Timestamp :: int64

record TimeSeries =
  Labels :: "Label list"
  Samples :: "Sample list"

record WriteRequest =
  Timeseries :: "TimeSeries list"

section \<open>Ways in which the process stops\<close>

text \<open>
  A Go \<^verbatim>\<open>error\<close> is carried as its message. \<^verbatim>\<open>log.Fatalf\<close> prints and exits the
  process; a run-time panic in the exporter's goroutine ends the process as well.
\<close>

type_synonym error = string

datatype fatal =
    GatherFailed error
  | UnknownMetricType MetricType
  | CreateFailed error
  | MarshalFailed error
  | SendFailed error
  | UnexpectedStatus string

datatype panic = NilPointerDereference | NonPositiveTickerInterval

datatype abort = Panic panic | Fatal fatal

section \<open>createSnappyWithMetricFamily\<close>

text \<open>
  Go's \<^verbatim>\<open>/\<close> on \<^verbatim>\<open>int64\<close> truncates towards zero. The only divisor in the exporter
  is a non-zero constant.
\<close>

definition int64_quo :: "int64 \<Rightarrow> int64 \<Rightarrow> int64" where
  "int64_quo a b =
     (let x = sint a; y = sint b; q = \<bar>x\<bar> div \<bar>y\<bar>
      in word_of_int (if (x < 0) = (y < 0) then q else - q))"

text \<open>\<^verbatim>\<open>int64(time.Millisecond)\<close>\<close>

definition time_Millisecond :: int64 where
  "time_Millisecond = 1000000"

text \<open>Lines 44 to 49: the loop that appends the metric's own labels.\<close>

fun label_loop :: "LabelPair option list \<Rightarrow> Label list \<Rightarrow> Label list" where
  "label_loop [] labels = labels"
| "label_loop (lp # lps) labels =
     label_loop lps
       (labels @ [\<lparr>Label_Name = LabelPair_GetName lp, Label_Value = LabelPair_GetValue lp\<rparr>])"

text \<open>
  Lines 52 to 67: the switch on \<^verbatim>\<open>*mf.Type\<close>, in the source's case order. The default
  branch calls \<^verbatim>\<open>log.Fatalf\<close>.
\<close>

definition switch_value :: "MetricType \<Rightarrow> Metric \<Rightarrow> abort + float64" where
  "switch_value t m =
     (if t = MetricType_COUNTER then Inr (Counter_GetValue (Metric_GetCounter (Some m)))
      else if t = MetricType_GAUGE then Inr (Gauge_GetValue (Metric_GetGauge (Some m)))
      else if t = MetricType_UNTYPED then Inr (Untyped_GetValue (Metric_GetUntyped (Some m)))
      else if t = MetricType_SUMMARY then Inr (Summary_GetSampleSum (Metric_GetSummary (Some m)))
      else if t = MetricType_HISTOGRAM then
        Inr (Histogram_GetSampleSum (Metric_GetHistogram (Some m)))
      else Inl (Fatal (UnknownMetricType t)))"

text \<open>
  Lines 41 to 77: the body of the inner loop, for one entry \<^verbatim>\<open>m\<close> of \<^verbatim>\<open>mf.Metric\<close>.
  \<^verbatim>\<open>m.Label\<close> dereferences \<^verbatim>\<open>m\<close> and \<^verbatim>\<open>*mf.Type\<close> dereferences the type pointer; either
  panics on \<^verbatim>\<open>nil\<close>. The sample is appended to the empty slice \<^verbatim>\<open>samples\<close>.
\<close>

definition metric_body :: "int64 \<Rightarrow> MetricFamily \<Rightarrow> Metric option \<Rightarrow> abort + TimeSeries" where
  "metric_body tStamp mf m =
     (case m of
        None \<Rightarrow> Inl (Panic NilPointerDereference)
      | Some m' \<Rightarrow>
          (let labels = label_loop (Metric_Label m')
                 [\<lparr>Label_Name = ''__name__'', Label_Value = MetricFamily_GetName (Some mf)\<rparr>]
           in (case MetricFamily_Type mf of
                 None \<Rightarrow> Inl (Panic NilPointerDereference)
               | Some t \<Rightarrow>
                   (case switch_value t m' of
                      Inl a \<Rightarrow> Inl a
                    | Inr v \<Rightarrow>
                        Inr \<lparr>Labels = labels,
                             Samples = [] @ [\<lparr>Sample_Value = v, Sample_Timestamp = tStamp\<rparr>]\<rparr>))))"

text \<open>Lines 40 to 78: the inner loop, appending to \<^verbatim>\<open>ts\<close>.\<close>

fun metric_loop ::
  "int64 \<Rightarrow> MetricFamily \<Rightarrow> Metric option list \<Rightarrow> TimeSeries list \<Rightarrow> abort + TimeSeries list"
where
  "metric_loop tStamp mf [] ts = Inr ts"
| "metric_loop tStamp mf (m # ms) ts =
     (case metric_body tStamp mf m of
        Inl a \<Rightarrow> Inl a
      | Inr s \<Rightarrow> metric_loop tStamp mf ms (ts @ [s]))"

text \<open>
  Lines 39 to 79: the outer loop. \<^verbatim>\<open>mf.Metric\<close> dereferences the family pointer.
\<close>

fun family_loop ::
  "int64 \<Rightarrow> MetricFamily option list \<Rightarrow> TimeSeries list \<Rightarrow> abort + TimeSeries list"
where
  "family_loop tStamp [] ts = Inr ts"
| "family_loop tStamp (mf # mfs) ts =
     (case mf of
        None \<Rightarrow> Inl (Panic NilPointerDereference)
      | Some f \<Rightarrow>
          (case metric_loop tStamp f (MetricFamily_Metric f) ts of
             Inl a \<Rightarrow> Inl a
           | Inr ts' \<Rightarrow> family_loop tStamp mfs ts'))"

text \<open>
  What the process does that is visible from outside, in the order it happens.
\<close>

record Request =
  Method :: string
  URL :: string
  Header :: "(string \<times> string list) list"
  Body :: "byte list"

record Response =
  StatusCode :: int
  Status :: string

datatype event =
    Printf_Writing nat int64
  | Log_Fatalf fatal
  | Http_Do Request
  | Body_Close
  | Println_success

fun abort_events :: "abort \<Rightarrow> event list" where
  "abort_events (Fatal f) = [Log_Fatalf f]"
| "abort_events (Panic p) = []"

text \<open>
  The function itself. \<open>now\<close> is the value of \<^verbatim>\<open>time.Now().UnixNano()\<close> at line 37,
  read once before the loops. The function either stops the process (\<open>Inl\<close>) or returns
  the pair of its two results; the line printed at line 81 is the event.
\<close>

definition createSnappyWithMetricFamily ::
  "int64 \<Rightarrow> MetricFamily option list \<Rightarrow> event list \<times> (abort + WriteRequest \<times> error option)"
where
  "createSnappyWithMetricFamily now mfs =
     (let tStamp = int64_quo now time_Millisecond
      in (case family_loop tStamp mfs [] of
            Inl a \<Rightarrow> (abort_events a, Inl a)
          | Inr ts \<Rightarrow>
              ([Printf_Writing (length ts) tStamp], Inr (\<lparr>Timeseries = ts\<rparr>, None))))"

section \<open>sendToRemoteWrite\<close>

text \<open>
  What lies outside the process during one tick: the result of
  \<^verbatim>\<open>prometheus.DefaultGatherer.Gather()\<close>, the clock, \<^verbatim>\<open>proto.Marshal\<close>,
  \<^verbatim>\<open>snappy.Encode\<close>, whether \<^verbatim>\<open>http.NewRequest\<close> can parse the URL (\<open>None\<close>: it
  can), and the answer of the network to a request.
\<close>

record world =
  Gather :: "error + MetricFamily option list"
  time_Now_UnixNano :: int64
  proto_Marshal :: "WriteRequest \<Rightarrow> error + byte list"
  snappy_Encode :: "byte list \<Rightarrow> byte list"
  url_Parse_error :: "string \<Rightarrow> error option"
  client_Do :: "Request \<Rightarrow> error + Response"

text \<open>
  \<^verbatim>\<open>http.NewRequest\<close> fails when the URL does not parse (the method \<^verbatim>\<open>POST\<close> is a valid
  one); the request it returns has an empty header map.
\<close>

definition http_NewRequest :: "world \<Rightarrow> string \<Rightarrow> string \<Rightarrow> byte list \<Rightarrow> error + Request" where
  "http_NewRequest w method url body =
     (case url_Parse_error w url of
        Some err \<Rightarrow> Inl err
      | None \<Rightarrow> Inr \<lparr>Method = method, URL = url, Header = [], Body = body\<rparr>)"

text \<open>
  \<^verbatim>\<open>Header.Set\<close> replaces the values stored under the key. Both keys the exporter sets
  are in canonical MIME form already, so they are stored as written.
\<close>

definition Header_Set :: "Request \<Rightarrow> string \<Rightarrow> string \<Rightarrow> Request" where
  "Header_Set req key val = req\<lparr>Header := AList.update key [val] (Header req)\<rparr>"

definition http_StatusOK :: int where
  "http_StatusOK = 200"

text \<open>\<^verbatim>\<open>fmt.Errorf\<close> with \<^verbatim>\<open>%w\<close>: the message is the prefix followed by the cause.\<close>

definition sendToRemoteWrite ::
  "world \<Rightarrow> byte list \<Rightarrow> string \<Rightarrow> event list \<times> (error + Response)"
where
  "sendToRemoteWrite w data remoteWriteURL =
     (case http_NewRequest w ''POST'' remoteWriteURL data of
        Inl err \<Rightarrow> ([], Inl (''failed to create HTTP request: '' @ err))
      | Inr req0 \<Rightarrow>
          (let req1 = Header_Set req0 ''Content-Encoding'' ''snappy'';
               req = Header_Set req1 ''Content-Type'' ''application/x-protobuf''
           in (case client_Do w req of
                 Inl err \<Rightarrow> ([Http_Do req], Inl (''failed to send HTTP request: '' @ err))
               | Inr resp \<Rightarrow> ([Http_Do req], Inr resp))))"

section \<open>RemoteWrite\<close>

text \<open>
  Lines 90 to 119: one pass through the body of the \<^verbatim>\<open>for range ticker.C\<close> loop. The
  result is the events of the pass and, when the pass ends the process, how.
\<close>

definition RemoteWrite_iteration :: "world \<Rightarrow> string \<Rightarrow> event list \<times> abort option" where
  "RemoteWrite_iteration w remoteWriteURL =
     (case Gather w of
        Inl err \<Rightarrow> ([Log_Fatalf (GatherFailed err)], Some (Fatal (GatherFailed err)))
      | Inr m \<Rightarrow>
          (case createSnappyWithMetricFamily (time_Now_UnixNano w) m of
             (evs, Inl a) \<Rightarrow> (evs, Some a)
           | (evs, Inr (wr, Some err)) \<Rightarrow>
               (evs @ [Log_Fatalf (CreateFailed err)], Some (Fatal (CreateFailed err)))
           | (evs, Inr (wr, None)) \<Rightarrow>
               (case proto_Marshal w wr of
                  Inl err \<Rightarrow>
                    (evs @ [Log_Fatalf (MarshalFailed err)], Some (Fatal (MarshalFailed err)))
                | Inr data \<Rightarrow>
                    (let buf = snappy_Encode w data
                     in (case sendToRemoteWrite w buf remoteWriteURL of
                           (evs', Inl err) \<Rightarrow>
                             (evs @ evs' @ [Log_Fatalf (SendFailed err)],
                              Some (Fatal (SendFailed err)))
                         | (evs', Inr resp) \<Rightarrow>
                             (if StatusCode resp \<noteq> http_StatusOK then
                                (evs @ evs' @
                                   [Body_Close, Log_Fatalf (UnexpectedStatus (Status resp))],
                                 Some (Fatal (UnexpectedStatus (Status resp))))
                              else (evs @ evs' @ [Body_Close, Println_success], None)))))))"

text \<open>
  The loop over the ticks. The list holds one world for each tick the ticker delivers;
  when it is used up the loop waits for the channel (\<open>Waiting\<close>). A pass that ends the
  process ends the loop: the remaining ticks are never served.
\<close>

datatype run_end = Waiting | Exited abort

fun ticker_loop :: "string \<Rightarrow> world list \<Rightarrow> event list \<times> run_end" where
  "ticker_loop remoteWriteURL [] = ([], Waiting)"
| "ticker_loop remoteWriteURL (w # ws) =
     (case RemoteWrite_iteration w remoteWriteURL of
        (evs, Some a) \<Rightarrow> (evs, Exited a)
      | (evs, None) \<Rightarrow>
          (case ticker_loop remoteWriteURL ws of (evs', r) \<Rightarrow> (evs @ evs', r)))"

text \<open>
  \<^verbatim>\<open>time.NewTicker\<close> panics when the interval (a \<^verbatim>\<open>time.Duration\<close>, an \<^verbatim>\<open>int64\<close>) is
  not positive. The deferred \<^verbatim>\<open>ticker.Stop\<close> never runs: the function does not return.
\<close>

definition RemoteWrite :: "string \<Rightarrow> int64 \<Rightarrow> world list \<Rightarrow> event list \<times> run_end" where
  "RemoteWrite remoteWriteURL frequency ticks =
     (if sint frequency \<le> 0 then ([], Exited (Panic NonPositiveTickerInterval))
      else ticker_loop remoteWriteURL ticks)"

section \<open>Vocabulary of the properties\<close>

text \<open>The types the switch has a case for.\<close>

definition recognized :: "MetricType \<Rightarrow> bool" where
  "recognized t \<longleftrightarrow>
     t \<in> set [MetricType_COUNTER, MetricType_GAUGE, MetricType_UNTYPED,
              MetricType_SUMMARY, MetricType_HISTOGRAM]"

text \<open>
  The snapshots the conversion accepts: no \<^verbatim>\<open>nil\<close> family, no \<^verbatim>\<open>nil\<close> metric, and every
  family that holds a metric declares one of the five types. Nothing is asked of the
  payloads, of the names or of the labels. A snapshot of the data model, where every
  family has one of the five types, is of this kind.
\<close>

definition well_formed_family :: "MetricFamily \<Rightarrow> bool" where
  "well_formed_family f \<longleftrightarrow>
     list_all (\<lambda>m. m \<noteq> None) (MetricFamily_Metric f) \<and>
     (case MetricFamily_Metric f of
        [] \<Rightarrow> True
      | m # ms \<Rightarrow> (case MetricFamily_Type f of None \<Rightarrow> False | Some t \<Rightarrow> recognized t))"

definition well_formed :: "MetricFamily option list \<Rightarrow> bool" where
  "well_formed mfs =
     list_all (\<lambda>mf. case mf of None \<Rightarrow> False | Some f \<Rightarrow> well_formed_family f) mfs"

text \<open>A family that declares a type the switch has no case for.\<close>

definition unknown_type_family :: "MetricFamily \<Rightarrow> bool" where
  "unknown_type_family f \<longleftrightarrow>
     (case MetricFamily_Type f of None \<Rightarrow> False | Some t \<Rightarrow> \<not> recognized t)"

text \<open>A snapshot without a \<^verbatim>\<open>nil\<close> family, metric or type pointer.\<close>

definition nil_free :: "MetricFamily option list \<Rightarrow> bool" where
  "nil_free mfs =
     list_all
       (\<lambda>mf. case mf of
               None \<Rightarrow> False
             | Some f \<Rightarrow>
                 MetricFamily_Type f \<noteq> None \<and>
                 list_all (\<lambda>m. m \<noteq> None) (MetricFamily_Metric f))
       mfs"

text \<open>The number of metric entries, summed over the families.\<close>

definition total_metrics :: "MetricFamily option list \<Rightarrow> nat" where
  "total_metrics mfs =
     sum_list (map (\<lambda>mf. case mf of None \<Rightarrow> 0 | Some f \<Rightarrow> length (MetricFamily_Metric f)) mfs)"

text \<open>
  The metrics of a snapshot, each with its family, in family order and then in metric
  order.
\<close>

definition family_metrics :: "MetricFamily \<Rightarrow> (MetricFamily \<times> Metric) list" where
  "family_metrics f = map (Pair f) (List.map_filter id (MetricFamily_Metric f))"

definition snapshot_metrics :: "MetricFamily option list \<Rightarrow> (MetricFamily \<times> Metric) list" where
  "snapshot_metrics mfs = concat (map family_metrics (List.map_filter id mfs))"

text \<open>The requests handed to the network, in order.\<close>

fun network_calls :: "event list \<Rightarrow> Request list" where
  "network_calls [] = []"
| "network_calls (Http_Do req # evs) = req # network_calls evs"
| "network_calls (ev # evs) = network_calls evs"

section \<open>Sample inputs\<close>

text \<open>
  A snapshot of four metrics in three families: the gauge \<^verbatim>\<open>up\<close> with value 1.0, a
  counter family of two metrics of which the second has no counter payload, and a
  histogram whose sample sum is 0.5. The clock reads 1700000000123456789 ns.
\<close>

definition up_metric :: Metric where
  "up_metric =
     \<lparr>Metric_Label = [],
      Metric_Gauge = Some \<lparr>Gauge_Value = Some 0x3FF0000000000000\<rparr>,
      Metric_Counter = None, Metric_Summary = None, Metric_Untyped = None,
      Metric_Histogram = None\<rparr>"

definition up_family :: MetricFamily where
  "up_family =
     \<lparr>MetricFamily_Name = Some ''up'', MetricFamily_Type = Some MetricType_GAUGE,
      MetricFamily_Metric = [Some up_metric]\<rparr>"

definition runs_metric :: Metric where
  "runs_metric =
     \<lparr>Metric_Label = [Some \<lparr>LabelPair_Name = Some ''task'', LabelPair_Value = Some ''bg''\<rparr>],
      Metric_Gauge = None,
      Metric_Counter = Some \<lparr>Counter_Value = Some 0x4045000000000000\<rparr>,
      Metric_Summary = None, Metric_Untyped = None, Metric_Histogram = None\<rparr>"

definition bare_metric :: Metric where
  "bare_metric =
     \<lparr>Metric_Label = [Some \<lparr>LabelPair_Name = Some ''task'', LabelPair_Value = Some ''fg''\<rparr>],
      Metric_Gauge = None, Metric_Counter = None, Metric_Summary = None,
      Metric_Untyped = None, Metric_Histogram = None\<rparr>"

definition runs_family :: MetricFamily where
  "runs_family =
     \<lparr>MetricFamily_Name = Some ''runs_total'', MetricFamily_Type = Some MetricType_COUNTER,
      MetricFamily_Metric = [Some runs_metric, Some bare_metric]\<rparr>"

definition duration_metric :: Metric where
  "duration_metric =
     \<lparr>Metric_Label =
        [Some \<lparr>LabelPair_Name = Some ''handler'', LabelPair_Value = Some ''foo''\<rparr>,
         Some \<lparr>LabelPair_Name = Some ''code'', LabelPair_Value = Some ''200''\<rparr>],
      Metric_Gauge = None, Metric_Counter = None, Metric_Summary = None,
      Metric_Untyped = None,
      Metric_Histogram =
        Some \<lparr>Histogram_SampleCount = Some 2, Histogram_SampleSum = Some 0x3FE0000000000000\<rparr>\<rparr>"

definition duration_family :: MetricFamily where
  "duration_family =
     \<lparr>MetricFamily_Name = Some ''duration_seconds'',
      MetricFamily_Type = Some MetricType_HISTOGRAM,
      MetricFamily_Metric = [Some duration_metric]\<rparr>"

definition sample_snapshot :: "MetricFamily option list" where
  "sample_snapshot = [Some up_family, Some runs_family, Some duration_family]"

definition sample_now :: int64 where
  "sample_now = 1700000000123456789"

text \<open>
  A family of the type \<^verbatim>\<open>GAUGE_HISTOGRAM\<close>, which the switch has no case for, once
  without metrics and once with one.
\<close>

definition idle_family :: MetricFamily where
  "idle_family =
     \<lparr>MetricFamily_Name = Some ''idle'', MetricFamily_Type = Some MetricType_GAUGE_HISTOGRAM,
      MetricFamily_Metric = []\<rparr>"

definition odd_family :: MetricFamily where
  "odd_family =
     \<lparr>MetricFamily_Name = Some ''odd'', MetricFamily_Type = Some MetricType_GAUGE_HISTOGRAM,
      MetricFamily_Metric = [Some up_metric]\<rparr>"

text \<open>
  A world around one tick. The encoders are stand-ins (the count of series as one byte,
  a marker byte in front); the endpoint answers with the given status.
\<close>

definition sample_world :: "MetricFamily option list \<Rightarrow> int \<Rightarrow> string \<Rightarrow> world" where
  "sample_world mfs code status =
     \<lparr>Gather = Inr mfs,
      time_Now_UnixNano = sample_now,
      proto_Marshal = (\<lambda>wr. Inr [of_nat (length (Timeseries wr))]),
      snappy_Encode = (\<lambda>data. 255 # data),
      url_Parse_error = (\<lambda>url. if url = [] then Some ''empty url'' else None),
      client_Do = (\<lambda>req. Inr \<lparr>StatusCode = code, Status = status\<rparr>)\<rparr>"

definition sample_url :: string where
  "sample_url = ''http://localhost:9090/api/v1/write''"

text \<open>The request the exporter builds for the sample URL and a given body.\<close>

definition sample_request :: "byte list \<Rightarrow> Request" where
  "sample_request body =
     \<lparr>Method = ''POST'', URL = sample_url,
      Header = [(''Content-Encoding'', [''snappy'']),
                (''Content-Type'', [''application/x-protobuf''])],
      Body = body\<rparr>"

text \<open>What the conversion makes of the sample snapshot at the sample time.\<close>

definition sample_series :: "TimeSeries list" where
  "sample_series =
     [\<lparr>Labels = [\<lparr>Label_Name = ''__name__'', Label_Value = ''up''\<rparr>],
       Samples = [\<lparr>Sample_Value = 0x3FF0000000000000, Sample_Timestamp = 1700000000123\<rparr>]\<rparr>,
      \<lparr>Labels = [\<lparr>Label_Name = ''__name__'', Label_Value = ''runs_total''\<rparr>,
                 \<lparr>Label_Name = ''task'', Label_Value = ''bg''\<rparr>],
       Samples = [\<lparr>Sample_Value = 0x4045000000000000, Sample_Timestamp = 1700000000123\<rparr>]\<rparr>,
      \<lparr>Labels = [\<lparr>Label_Name = ''__name__'', Label_Value = ''runs_total''\<rparr>,
                 \<lparr>Label_Name = ''task'', Label_Value = ''fg''\<rparr>],
       Samples = [\<lparr>Sample_Value = 0, Sample_Timestamp = 1700000000123\<rparr>]\<rparr>,
      \<lparr>Labels = [\<lparr>Label_Name = ''__name__'', Label_Value = ''duration_seconds''\<rparr>,
                 \<lparr>Label_Name = ''handler'', Label_Value = ''foo''\<rparr>,
                 \<lparr>Label_Name = ''code'', Label_Value = ''200''\<rparr>],
       Samples = [\<lparr>Sample_Value = 0x3FE0000000000000, Sample_Timestamp = 1700000000123\<rparr>]\<rparr>]"

section \<open>The loops, as lists\<close>

lemma label_loop_eq:
  "label_loop lps labels =
     labels @ map (\<lambda>lp. \<lparr>Label_Name = LabelPair_GetName lp, Label_Value = LabelPair_GetValue lp\<rparr>) lps"
  by (induction lps arbitrary: labels) simp_all

lemma metric_body_Some:
  "metric_body tStamp f m = Inr s \<Longrightarrow> \<exists>m'. m = Some m'"
  by (cases m) (simp_all add: metric_body_def)

lemma metric_loop_Inr:
  "metric_loop tStamp f ms ts = Inr ts' \<Longrightarrow>
     \<exists>ss. ts' = ts @ ss \<and> list_all2 (\<lambda>m s. metric_body tStamp f m = Inr s) ms ss"
proof (induction ms arbitrary: ts)
  case Nil
  then show ?case by simp
next
  case (Cons m ms)
  from Cons.prems obtain s where s: "metric_body tStamp f m = Inr s"
    and rest: "metric_loop tStamp f ms (ts @ [s]) = Inr ts'"
    by (auto split: sum.splits)
  from Cons.IH [OF rest] obtain ss where "ts' = (ts @ [s]) @ ss"
    and "list_all2 (\<lambda>m s. metric_body tStamp f m = Inr s) ms ss"
    by blast
  with s have "ts' = ts @ (s # ss) \<and> list_all2 (\<lambda>m s. metric_body tStamp f m = Inr s) (m # ms) (s # ss)"
    by simp
  then show ?case by blast
qed

lemma family_metrics_all2:
  "list_all2 (\<lambda>m s. metric_body tStamp f m = Inr s) ms ss \<Longrightarrow>
     list_all2 (\<lambda>(f', m) s. metric_body tStamp f' (Some m) = Inr s)
       (map (Pair f) (List.map_filter id ms)) ss"
proof (induction ms ss rule: list_all2_induct)
  case Nil
  then show ?case by simp
next
  case (Cons m ms s ss)
  from Cons.hyps(1) obtain m' where "m = Some m'"
    using metric_body_Some by blast
  with Cons show ?case by simp
qed

lemma family_loop_Inr:
  "family_loop tStamp mfs ts = Inr ts' \<Longrightarrow>
     \<exists>ss. ts' = ts @ ss \<and> length ss = total_metrics mfs \<and>
       list_all2 (\<lambda>(f, m) s. metric_body tStamp f (Some m) = Inr s) (snapshot_metrics mfs) ss"
proof (induction mfs arbitrary: ts)
  case Nil
  then show ?case by (simp add: total_metrics_def snapshot_metrics_def)
next
  case (Cons mf mfs)
  from Cons.prems obtain f ts1 where mf: "mf = Some f"
    and inner: "metric_loop tStamp f (MetricFamily_Metric f) ts = Inr ts1"
    and rest: "family_loop tStamp mfs ts1 = Inr ts'"
    by (auto split: option.splits sum.splits)
  from metric_loop_Inr [OF inner] obtain ss1 where ss1: "ts1 = ts @ ss1"
    and all1: "list_all2 (\<lambda>m s. metric_body tStamp f m = Inr s) (MetricFamily_Metric f) ss1"
    by blast
  from Cons.IH [OF rest] obtain ss2 where ss2: "ts' = ts1 @ ss2"
    and len2: "length ss2 = total_metrics mfs"
    and all2: "list_all2 (\<lambda>(f, m) s. metric_body tStamp f (Some m) = Inr s) (snapshot_metrics mfs) ss2"
    by blast
  have len1: "length ss1 = length (MetricFamily_Metric f)"
    using all1 by (simp add: list_all2_lengthD)
  have fm: "list_all2 (\<lambda>(f, m) s. metric_body tStamp f (Some m) = Inr s) (family_metrics f) ss1"
    unfolding family_metrics_def by (rule family_metrics_all2 [OF all1])
  have "ts' = ts @ (ss1 @ ss2)" using ss1 ss2 by simp
  moreover have "length (ss1 @ ss2) = total_metrics (mf # mfs)"
    using len1 len2 mf by (simp add: total_metrics_def)
  moreover have "list_all2 (\<lambda>(f, m) s. metric_body tStamp f (Some m) = Inr s)
       (snapshot_metrics (mf # mfs)) (ss1 @ ss2)"
    using fm all2 mf by (simp add: snapshot_metrics_def list_all2_appendI)
  ultimately show ?case by blast
qed

lemma recognized_switch:
  "recognized t \<Longrightarrow> \<exists>v. switch_value t m = Inr v"
  by (auto simp: recognized_def switch_value_def)

lemma unrecognized_switch:
  "\<not> recognized t \<Longrightarrow> switch_value t m = Inl (Fatal (UnknownMetricType t))"
  by (simp add: recognized_def switch_value_def)

lemma switch_Inr_recognized:
  "switch_value t m = Inr v \<Longrightarrow> recognized t"
  using unrecognized_switch [of t m] by auto

lemma metric_loop_total:
  "list_all (\<lambda>m. m \<noteq> None) ms \<Longrightarrow> MetricFamily_Type f = Some t \<Longrightarrow> recognized t \<Longrightarrow>
     \<exists>ts'. metric_loop tStamp f ms ts = Inr ts'"
proof (induction ms arbitrary: ts)
  case Nil
  then show ?case by simp
next
  case (Cons m ms)
  from Cons.prems obtain m' where m: "m = Some m'" by auto
  from recognized_switch [OF Cons.prems(3)] obtain v where "switch_value t m' = Inr v" by blast
  with m Cons.prems(2) have "\<exists>s. metric_body tStamp f m = Inr s"
    by (simp add: metric_body_def)
  then obtain s where s: "metric_body tStamp f m = Inr s" by blast
  from Cons.IH [of "ts @ [s]"] Cons.prems obtain ts' where
    "metric_loop tStamp f ms (ts @ [s]) = Inr ts'" by auto
  with s show ?case by simp
qed

lemma metric_loop_total_family:
  assumes "well_formed_family f"
  shows "\<exists>ts'. metric_loop tStamp f (MetricFamily_Metric f) ts = Inr ts'"
proof (cases "MetricFamily_Metric f")
  case Nil
  then show ?thesis by simp
next
  case (Cons m ms)
  with assms obtain t where "MetricFamily_Type f = Some t" "recognized t"
    by (auto simp: well_formed_family_def split: option.splits)
  moreover from assms have "list_all (\<lambda>m. m \<noteq> None) (MetricFamily_Metric f)"
    by (simp add: well_formed_family_def)
  ultimately show ?thesis by (rule metric_loop_total [rotated])
qed

lemma family_loop_total:
  "well_formed mfs \<Longrightarrow> \<exists>ts'. family_loop tStamp mfs ts = Inr ts'"
proof (induction mfs arbitrary: ts)
  case Nil
  then show ?case by simp
next
  case (Cons mf mfs)
  from Cons.prems obtain f where mf: "mf = Some f" and wf: "well_formed_family f"
    and rest: "well_formed mfs"
    by (auto simp: well_formed_def split: option.splits)
  from metric_loop_total_family [OF wf] obtain ts1 where
    ts1: "metric_loop tStamp f (MetricFamily_Metric f) ts = Inr ts1" by blast
  from Cons.IH [OF rest] obtain ts' where "family_loop tStamp mfs ts1 = Inr ts'" by blast
  with mf ts1 show ?case by simp
qed


lemma metric_loop_wf:
  "metric_loop tStamp f ms ts = Inr ts' \<Longrightarrow>
     list_all (\<lambda>m. m \<noteq> None) ms \<and>
     (case ms of [] \<Rightarrow> True
      | m # ms' \<Rightarrow> (case MetricFamily_Type f of None \<Rightarrow> False | Some t \<Rightarrow> recognized t))"
proof (induction ms arbitrary: ts)
  case Nil
  then show ?case by simp
next
  case (Cons m ms)
  from Cons.prems obtain s where s: "metric_body tStamp f m = Inr s"
    and rest: "metric_loop tStamp f ms (ts @ [s]) = Inr ts'"
    by (auto split: sum.splits)
  from s have "m \<noteq> None" using metric_body_Some by blast
  moreover from s have "case MetricFamily_Type f of None \<Rightarrow> False | Some t \<Rightarrow> recognized t"
    by (auto simp: metric_body_def split: option.splits sum.splits dest: switch_Inr_recognized)
  moreover from Cons.IH [OF rest] have "list_all (\<lambda>m. m \<noteq> None) ms" by simp
  ultimately show ?case by simp
qed

lemma family_loop_wf:
  "family_loop tStamp mfs ts = Inr ts' \<Longrightarrow> well_formed mfs"
proof (induction mfs arbitrary: ts)
  case Nil
  then show ?case by (simp add: well_formed_def)
next
  case (Cons mf mfs)
  from Cons.prems obtain f ts1 where mf: "mf = Some f"
    and inner: "metric_loop tStamp f (MetricFamily_Metric f) ts = Inr ts1"
    and rest: "family_loop tStamp mfs ts1 = Inr ts'"
    by (auto split: option.splits sum.splits)
  from metric_loop_wf [OF inner] have "well_formed_family f"
    by (simp add: well_formed_family_def)
  with Cons.IH [OF rest] mf show ?case by (simp add: well_formed_def)
qed

lemma createSnappy_cases:
  "createSnappyWithMetricFamily now mfs =
     (case family_loop (int64_quo now time_Millisecond) mfs [] of
        Inl a \<Rightarrow> (abort_events a, Inl a)
      | Inr ts \<Rightarrow>
          ([Printf_Writing (length ts) (int64_quo now time_Millisecond)],
           Inr (\<lparr>Timeseries = ts\<rparr>, None)))"
  by (simp add: createSnappyWithMetricFamily_def Let_def)

lemma createSnappy_returns:
  assumes "well_formed mfs"
  shows "\<exists>ts. family_loop (int64_quo now time_Millisecond) mfs [] = Inr ts \<and>
           createSnappyWithMetricFamily now mfs =
             ([Printf_Writing (length ts) (int64_quo now time_Millisecond)],
              Inr (\<lparr>Timeseries = ts\<rparr>, None))"
proof -
  from family_loop_total [OF assms] obtain ts where
    "family_loop (int64_quo now time_Millisecond) mfs [] = Inr ts" by blast
  then show ?thesis by (simp add: createSnappy_cases)
qed

lemma createSnappy_returns_iff:
  "(\<exists>r. snd (createSnappyWithMetricFamily now mfs) = Inr r) \<longleftrightarrow> well_formed mfs"
proof
  assume "\<exists>r. snd (createSnappyWithMetricFamily now mfs) = Inr r"
  then obtain ts where "family_loop (int64_quo now time_Millisecond) mfs [] = Inr ts"
    by (auto simp: createSnappy_cases split: sum.splits)
  then show "well_formed mfs" by (rule family_loop_wf)
next
  assume "well_formed mfs"
  from createSnappy_returns [OF this, of now] show "\<exists>r. snd (createSnappyWithMetricFamily now mfs) = Inr r"
    by auto
qed

lemma metric_body_Labels:
  "metric_body tStamp f (Some m) = Inr s \<Longrightarrow>
     Labels s =
       \<lparr>Label_Name = ''__name__'', Label_Value = MetricFamily_GetName (Some f)\<rparr> #
       map (\<lambda>lp. \<lparr>Label_Name = LabelPair_GetName lp, Label_Value = LabelPair_GetValue lp\<rparr>)
         (Metric_Label m)"
  by (auto simp: metric_body_def label_loop_eq split: option.splits sum.splits)

lemma metric_body_Samples:
  "metric_body tStamp f (Some m) = Inr s \<Longrightarrow>
     \<exists>t v. MetricFamily_Type f = Some t \<and> switch_value t m = Inr v \<and>
       Samples s = [\<lparr>Sample_Value = v, Sample_Timestamp = tStamp\<rparr>]"
  by (auto simp: metric_body_def split: option.splits sum.splits)

section \<open>The sample inputs, evaluated\<close>

lemmas MetricType_defs =
  MetricType_COUNTER_def MetricType_GAUGE_def MetricType_SUMMARY_def MetricType_UNTYPED_def
  MetricType_HISTOGRAM_def MetricType_GAUGE_HISTOGRAM_def

lemmas getter_defs =
  MetricFamily_GetName_def LabelPair_GetName_def LabelPair_GetValue_def
  Metric_GetCounter_def Metric_GetGauge_def Metric_GetUntyped_def Metric_GetSummary_def
  Metric_GetHistogram_def Counter_GetValue_def Gauge_GetValue_def Untyped_GetValue_def
  Summary_GetSampleSum_def Histogram_GetSampleSum_def

lemmas sample_defs =
  sample_snapshot_def up_family_def up_metric_def runs_family_def runs_metric_def
  bare_metric_def duration_family_def duration_metric_def idle_family_def odd_family_def

lemma switch_value_cases:
  "switch_value MetricType_COUNTER m = Inr (Counter_GetValue (Metric_Counter m))"
  "switch_value MetricType_GAUGE m = Inr (Gauge_GetValue (Metric_Gauge m))"
  "switch_value MetricType_UNTYPED m = Inr (Untyped_GetValue (Metric_Untyped m))"
  "switch_value MetricType_SUMMARY m = Inr (Summary_GetSampleSum (Metric_Summary m))"
  "switch_value MetricType_HISTOGRAM m = Inr (Histogram_GetSampleSum (Metric_Histogram m))"
  by (simp_all add: switch_value_def MetricType_defs Metric_GetCounter_def Metric_GetGauge_def
      Metric_GetUntyped_def Metric_GetSummary_def Metric_GetHistogram_def)

lemma sample_tStamp: "int64_quo sample_now time_Millisecond = 1700000000123"
  by (simp add: int64_quo_def sample_now_def time_Millisecond_def)

lemma sample_well_formed: "well_formed sample_snapshot"
  by (simp add: well_formed_def well_formed_family_def sample_defs recognized_def MetricType_defs)

lemma sample_family_loop:
  "family_loop 1700000000123 sample_snapshot [] = Inr sample_series"
  by (simp add: sample_defs sample_series_def metric_body_def switch_value_def MetricType_defs
      getter_defs)

lemma sample_conversion:
  "createSnappyWithMetricFamily sample_now sample_snapshot =
     ([Printf_Writing 4 1700000000123], Inr (\<lparr>Timeseries = sample_series\<rparr>, None))"
  by (simp add: createSnappy_cases sample_tStamp sample_family_loop) (simp add: sample_series_def)

lemma sample_snapshot_metrics:
  "snapshot_metrics sample_snapshot =
     [(up_family, up_metric), (runs_family, runs_metric), (runs_family, bare_metric),
      (duration_family, duration_metric)]"
  by (simp add: snapshot_metrics_def family_metrics_def sample_snapshot_def up_family_def
      runs_family_def duration_family_def)

lemma sample_total_metrics: "total_metrics sample_snapshot = 4"
  by (simp add: total_metrics_def sample_snapshot_def up_family_def
      runs_family_def duration_family_def)

section \<open>The series builder\<close>

text \<open>
  C1. On every snapshot the conversion accepts, \<open>createSnappyWithMetricFamily\<close> returns
  a write request; its \<open>Timeseries\<close> list has exactly as many entries as the snapshot
  has metrics, summed over the families; and, family by family and metric by metric in
  snapshot order, the entry at each position is the series the loop body builds from
  the metric at that position.
\<close>

theorem C1_one_series_per_metric:
  assumes "well_formed mfs"
  shows "\<exists>wr. snd (createSnappyWithMetricFamily now mfs) = Inr (wr, None) \<and>
           length (Timeseries wr) = total_metrics mfs \<and>
           list_all2
             (\<lambda>(f, m) s. metric_body (int64_quo now time_Millisecond) f (Some m) = Inr s)
             (snapshot_metrics mfs) (Timeseries wr)"
proof -
  from createSnappy_returns [OF assms, of now] obtain ts where
    loop: "family_loop (int64_quo now time_Millisecond) mfs [] = Inr ts" and
    ret: "snd (createSnappyWithMetricFamily now mfs) = Inr (\<lparr>Timeseries = ts\<rparr>, None)"
    by auto
  from family_loop_Inr [OF loop] have "length ts = total_metrics mfs"
    and "list_all2
           (\<lambda>(f, m) s. metric_body (int64_quo now time_Millisecond) f (Some m) = Inr s)
           (snapshot_metrics mfs) ts"
    by auto
  with ret show ?thesis by simp
qed

theorem C1_one_series_per_metric_witness:
  "well_formed sample_snapshot \<and> total_metrics sample_snapshot = 4 \<and>
   snd (createSnappyWithMetricFamily sample_now sample_snapshot) =
     Inr (\<lparr>Timeseries = sample_series\<rparr>, None) \<and>
   length sample_series = 4 \<and>
   list_all2 (\<lambda>(f, m) s. metric_body 1700000000123 f (Some m) = Inr s)
     [(up_family, up_metric), (runs_family, runs_metric), (runs_family, bare_metric),
      (duration_family, duration_metric)]
     sample_series"
proof -
  have h: "well_formed sample_snapshot" by (rule sample_well_formed)
  from C1_one_series_per_metric [OF h, of sample_now]
  have "length sample_series = total_metrics sample_snapshot \<and>
     list_all2 (\<lambda>(f, m) s. metric_body 1700000000123 f (Some m) = Inr s)
       (snapshot_metrics sample_snapshot) sample_series"
    by (simp add: sample_conversion sample_tStamp)
  then show ?thesis
    using h by (simp add: sample_conversion sample_total_metrics sample_snapshot_metrics)
qed

lemma builder_pointwise:
  assumes "well_formed mfs"
    and step: "\<And>f m s. metric_body (int64_quo now time_Millisecond) f (Some m) = Inr s \<Longrightarrow> P (f, m) s"
  shows "\<exists>wr. snd (createSnappyWithMetricFamily now mfs) = Inr (wr, None) \<and>
           list_all2 P (snapshot_metrics mfs) (Timeseries wr)"
proof -
  from createSnappy_returns [OF assms(1), of now] obtain ts where
    loop: "family_loop (int64_quo now time_Millisecond) mfs [] = Inr ts" and
    ret: "snd (createSnappyWithMetricFamily now mfs) = Inr (\<lparr>Timeseries = ts\<rparr>, None)"
    by auto
  from family_loop_Inr [OF loop] have
    "list_all2
       (\<lambda>(f, m) s. metric_body (int64_quo now time_Millisecond) f (Some m) = Inr s)
       (snapshot_metrics mfs) ts"
    by auto
  then have "list_all2 P (snapshot_metrics mfs) ts"
    by (rule list_all2_mono) (auto intro: step)
  with ret show ?thesis by simp
qed

lemma metric_body_value:
  assumes "metric_body tStamp f (Some m) = Inr s"
  shows "(MetricFamily_Type f = Some MetricType_COUNTER \<longrightarrow>
            map Sample_Value (Samples s) = [Counter_GetValue (Metric_Counter m)]) \<and>
         (MetricFamily_Type f = Some MetricType_GAUGE \<longrightarrow>
            map Sample_Value (Samples s) = [Gauge_GetValue (Metric_Gauge m)]) \<and>
         (MetricFamily_Type f = Some MetricType_UNTYPED \<longrightarrow>
            map Sample_Value (Samples s) = [Untyped_GetValue (Metric_Untyped m)]) \<and>
         (MetricFamily_Type f = Some MetricType_SUMMARY \<longrightarrow>
            map Sample_Value (Samples s) = [Summary_GetSampleSum (Metric_Summary m)]) \<and>
         (MetricFamily_Type f = Some MetricType_HISTOGRAM \<longrightarrow>
            map Sample_Value (Samples s) = [Histogram_GetSampleSum (Metric_Histogram m)])"
proof -
  from metric_body_Samples [OF assms] obtain t v where
    t: "MetricFamily_Type f = Some t" and v: "switch_value t m = Inr v" and
    s: "Samples s = [\<lparr>Sample_Value = v, Sample_Timestamp = tStamp\<rparr>]"
    by blast
  show ?thesis using t v s by (auto simp: switch_value_cases)
qed

text \<open>
  C2. On every snapshot the conversion accepts it returns, and at each position the one
  sample of the series carries the scalar the family's type selects from the metric at
  that position: the counter value for a Counter family, the gauge value for a Gauge
  family, the untyped value for an Untyped family, the sample sum of the summary for a
  Summary family and the sample sum of the histogram for a Histogram family. A value
  is read as the generated getter reads it.
\<close>

theorem C2_value_by_family_type:
  assumes "well_formed mfs"
  shows "\<exists>wr. snd (createSnappyWithMetricFamily now mfs) = Inr (wr, None) \<and>
           list_all2
             (\<lambda>(f, m) s.
                (MetricFamily_Type f = Some MetricType_COUNTER \<longrightarrow>
                   map Sample_Value (Samples s) = [Counter_GetValue (Metric_Counter m)]) \<and>
                (MetricFamily_Type f = Some MetricType_GAUGE \<longrightarrow>
                   map Sample_Value (Samples s) = [Gauge_GetValue (Metric_Gauge m)]) \<and>
                (MetricFamily_Type f = Some MetricType_UNTYPED \<longrightarrow>
                   map Sample_Value (Samples s) = [Untyped_GetValue (Metric_Untyped m)]) \<and>
                (MetricFamily_Type f = Some MetricType_SUMMARY \<longrightarrow>
                   map Sample_Value (Samples s) = [Summary_GetSampleSum (Metric_Summary m)]) \<and>
                (MetricFamily_Type f = Some MetricType_HISTOGRAM \<longrightarrow>
                   map Sample_Value (Samples s) =
                     [Histogram_GetSampleSum (Metric_Histogram m)]))
             (snapshot_metrics mfs) (Timeseries wr)"
  by (rule builder_pointwise [OF assms]) (simp add: metric_body_value)

theorem C2_value_by_family_type_witness:
  "well_formed sample_snapshot \<and>
   snd (createSnappyWithMetricFamily sample_now sample_snapshot) =
     Inr (\<lparr>Timeseries = sample_series\<rparr>, None) \<and>
   MetricFamily_Type up_family = Some MetricType_GAUGE \<and>
   MetricFamily_Type runs_family = Some MetricType_COUNTER \<and>
   MetricFamily_Type duration_family = Some MetricType_HISTOGRAM \<and>
   map (map Sample_Value \<circ> Samples) sample_series =
     [[Gauge_GetValue (Metric_Gauge up_metric)],
      [Counter_GetValue (Metric_Counter runs_metric)],
      [Counter_GetValue (Metric_Counter bare_metric)],
      [Histogram_GetSampleSum (Metric_Histogram duration_metric)]] \<and>
   map (map Sample_Value \<circ> Samples) sample_series =
     [[0x3FF0000000000000], [0x4045000000000000], [0], [0x3FE0000000000000]]"
proof -
  have h: "well_formed sample_snapshot" by (rule sample_well_formed)
  have t: "MetricFamily_Type up_family = Some MetricType_GAUGE"
    "MetricFamily_Type runs_family = Some MetricType_COUNTER"
    "MetricFamily_Type duration_family = Some MetricType_HISTOGRAM"
    by (simp_all add: sample_defs)
  have d: "MetricType_GAUGE \<noteq> MetricType_COUNTER" "MetricType_GAUGE \<noteq> MetricType_UNTYPED"
    "MetricType_GAUGE \<noteq> MetricType_SUMMARY" "MetricType_GAUGE \<noteq> MetricType_HISTOGRAM"
    "MetricType_COUNTER \<noteq> MetricType_UNTYPED"
    "MetricType_COUNTER \<noteq> MetricType_SUMMARY" "MetricType_COUNTER \<noteq> MetricType_HISTOGRAM"
    "MetricType_HISTOGRAM \<noteq> MetricType_UNTYPED"
    "MetricType_HISTOGRAM \<noteq> MetricType_SUMMARY"
    by (simp_all add: MetricType_defs)
  from C2_value_by_family_type [OF h, of sample_now]
  have "map (map Sample_Value \<circ> Samples) sample_series =
     [[Gauge_GetValue (Metric_Gauge up_metric)],
      [Counter_GetValue (Metric_Counter runs_metric)],
      [Counter_GetValue (Metric_Counter bare_metric)],
      [Histogram_GetSampleSum (Metric_Histogram duration_metric)]]"
    by (simp add: sample_conversion sample_snapshot_metrics sample_series_def t d d [symmetric])
  moreover have "map (map Sample_Value \<circ> Samples) sample_series =
     [[0x3FF0000000000000], [0x4045000000000000], [0], [0x3FE0000000000000]]"
    by (simp add: sample_series_def)
  ultimately show ?thesis using h t by (simp add: sample_conversion)
qed

text \<open>
  C3. On every snapshot the conversion accepts it returns, and the label list of the
  series at each position is not empty, starts with the label named \<^verbatim>\<open>__name__\<close>
  whose value is the name of the family that owns the metric at that position (the
  empty string if the name is unset), and goes on with exactly the labels of that
  metric in their order.
\<close>

theorem C3_name_label_first:
  assumes "well_formed mfs"
  shows "\<exists>wr. snd (createSnappyWithMetricFamily now mfs) = Inr (wr, None) \<and>
           list_all2
             (\<lambda>(f, m) s.
                Labels s \<noteq> [] \<and>
                Labels s ! 0 =
                  \<lparr>Label_Name = ''__name__'',
                   Label_Value = (case MetricFamily_Name f of None \<Rightarrow> [] | Some n \<Rightarrow> n)\<rparr> \<and>
                tl (Labels s) =
                  map (\<lambda>lp. \<lparr>Label_Name = LabelPair_GetName lp,
                             Label_Value = LabelPair_GetValue lp\<rparr>)
                    (Metric_Label m))
             (snapshot_metrics mfs) (Timeseries wr)"
  by (rule builder_pointwise [OF assms])
    (auto dest!: metric_body_Labels simp: MetricFamily_GetName_def)

theorem C3_name_label_first_witness:
  "well_formed sample_snapshot \<and>
   snd (createSnappyWithMetricFamily sample_now sample_snapshot) =
     Inr (\<lparr>Timeseries = sample_series\<rparr>, None) \<and>
   map Labels sample_series =
     [[\<lparr>Label_Name = ''__name__'', Label_Value = ''up''\<rparr>],
      [\<lparr>Label_Name = ''__name__'', Label_Value = ''runs_total''\<rparr>,
       \<lparr>Label_Name = ''task'', Label_Value = ''bg''\<rparr>],
      [\<lparr>Label_Name = ''__name__'', Label_Value = ''runs_total''\<rparr>,
       \<lparr>Label_Name = ''task'', Label_Value = ''fg''\<rparr>],
      [\<lparr>Label_Name = ''__name__'', Label_Value = ''duration_seconds''\<rparr>,
       \<lparr>Label_Name = ''handler'', Label_Value = ''foo''\<rparr>,
       \<lparr>Label_Name = ''code'', Label_Value = ''200''\<rparr>]] \<and>
   list_all2
     (\<lambda>(f, m) s.
        Labels s \<noteq> [] \<and>
        Labels s ! 0 =
          \<lparr>Label_Name = ''__name__'',
           Label_Value = (case MetricFamily_Name f of None \<Rightarrow> [] | Some n \<Rightarrow> n)\<rparr> \<and>
        tl (Labels s) =
          map (\<lambda>lp. \<lparr>Label_Name = LabelPair_GetName lp, Label_Value = LabelPair_GetValue lp\<rparr>)
            (Metric_Label m))
     [(up_family, up_metric), (runs_family, runs_metric), (runs_family, bare_metric),
      (duration_family, duration_metric)]
     sample_series"
proof -
  have h: "well_formed sample_snapshot" by (rule sample_well_formed)
  from C3_name_label_first [OF h, of sample_now]
  have "list_all2
     (\<lambda>(f, m) s.
        Labels s \<noteq> [] \<and>
        Labels s ! 0 =
          \<lparr>Label_Name = ''__name__'',
           Label_Value = (case MetricFamily_Name f of None \<Rightarrow> [] | Some n \<Rightarrow> n)\<rparr> \<and>
        tl (Labels s) =
          map (\<lambda>lp. \<lparr>Label_Name = LabelPair_GetName lp, Label_Value = LabelPair_GetValue lp\<rparr>)
            (Metric_Label m))
     [(up_family, up_metric), (runs_family, runs_metric), (runs_family, bare_metric),
      (duration_family, duration_metric)]
     sample_series"
    by (simp only: sample_conversion sample_snapshot_metrics snd_conv sum.inject prod.inject
        simp_thms ex_simps WriteRequest.simps)
  moreover have "map Labels sample_series =
     [[\<lparr>Label_Name = ''__name__'', Label_Value = ''up''\<rparr>],
      [\<lparr>Label_Name = ''__name__'', Label_Value = ''runs_total''\<rparr>,
       \<lparr>Label_Name = ''task'', Label_Value = ''bg''\<rparr>],
      [\<lparr>Label_Name = ''__name__'', Label_Value = ''runs_total''\<rparr>,
       \<lparr>Label_Name = ''task'', Label_Value = ''fg''\<rparr>],
      [\<lparr>Label_Name = ''__name__'', Label_Value = ''duration_seconds''\<rparr>,
       \<lparr>Label_Name = ''handler'', Label_Value = ''foo''\<rparr>,
       \<lparr>Label_Name = ''code'', Label_Value = ''200''\<rparr>]]"
    by (simp add: sample_series_def)
  ultimately show ?thesis using h by (simp add: sample_conversion)
qed

text \<open>
  C4. On every snapshot the conversion accepts it returns, and every series of the
  write request holds exactly one sample, whose timestamp is the one clock reading
  taken before the loops, in milliseconds: the same for all the samples of the request.
\<close>

theorem C4_one_sample_one_timestamp:
  assumes "well_formed mfs"
  shows "\<exists>wr. snd (createSnappyWithMetricFamily now mfs) = Inr (wr, None) \<and>
           list_all
             (\<lambda>s. length (Samples s) = 1 \<and>
                  map Sample_Timestamp (Samples s) = [int64_quo now time_Millisecond])
             (Timeseries wr)"
proof -
  let ?Q = "\<lambda>s. length (Samples s) = 1 \<and>
                 map Sample_Timestamp (Samples s) = [int64_quo now time_Millisecond]"
  have "\<exists>wr. snd (createSnappyWithMetricFamily now mfs) = Inr (wr, None) \<and>
          list_all2 (\<lambda>p. ?Q) (snapshot_metrics mfs) (Timeseries wr)"
    by (rule builder_pointwise [OF assms]) (auto dest!: metric_body_Samples)
  then obtain wr where ret: "snd (createSnappyWithMetricFamily now mfs) = Inr (wr, None)"
    and all2: "list_all2 (\<lambda>p. ?Q) (snapshot_metrics mfs) (Timeseries wr)"
    by blast
  from all2 have "list_all ?Q (Timeseries wr)"
    by (auto simp: list_all_iff list_all2_conv_all_nth in_set_conv_nth)
  with ret show ?thesis by blast
qed

theorem C4_one_sample_one_timestamp_witness:
  "well_formed sample_snapshot \<and>
   snd (createSnappyWithMetricFamily sample_now sample_snapshot) =
     Inr (\<lparr>Timeseries = sample_series\<rparr>, None) \<and>
   int64_quo sample_now time_Millisecond = 1700000000123 \<and>
   map (length \<circ> Samples) sample_series = [1, 1, 1, 1] \<and>
   map (map Sample_Timestamp \<circ> Samples) sample_series =
     [[1700000000123], [1700000000123], [1700000000123], [1700000000123]]"
proof -
  have h: "well_formed sample_snapshot" by (rule sample_well_formed)
  from C4_one_sample_one_timestamp [OF h, of sample_now]
  have "list_all
      (\<lambda>s. length (Samples s) = 1 \<and> map Sample_Timestamp (Samples s) = [1700000000123])
      sample_series"
    by (simp add: sample_conversion sample_tStamp)
  then have "map (length \<circ> Samples) sample_series = [1, 1, 1, 1] \<and>
     map (map Sample_Timestamp \<circ> Samples) sample_series =
       [[1700000000123], [1700000000123], [1700000000123], [1700000000123]]"
    by (simp add: sample_series_def)
  then show ?thesis using h by (simp add: sample_conversion sample_tStamp)
qed

lemma metric_body_Inl:
  "metric_body tStamp f m = Inl a \<Longrightarrow>
     a = Panic NilPointerDereference \<or>
     (\<exists>t. MetricFamily_Type f = Some t \<and> \<not> recognized t \<and> a = Fatal (UnknownMetricType t))"
  by (auto simp: metric_body_def switch_value_def recognized_def
      split: option.splits sum.splits if_splits)

lemma metric_loop_Inl:
  "metric_loop tStamp f ms ts = Inl a \<Longrightarrow>
     a = Panic NilPointerDereference \<or>
     (\<exists>t. MetricFamily_Type f = Some t \<and> \<not> recognized t \<and> a = Fatal (UnknownMetricType t))"
proof (induction ms arbitrary: ts)
  case Nil
  then show ?case by simp
next
  case (Cons m ms)
  show ?case
  proof (cases "metric_body tStamp f m")
    case (Inl b)
    with Cons.prems have "a = b" by simp
    with Inl show ?thesis by (auto dest: metric_body_Inl)
  next
    case (Inr s)
    with Cons.prems have "metric_loop tStamp f ms (ts @ [s]) = Inl a" by simp
    then show ?thesis by (rule Cons.IH)
  qed
qed

lemma family_loop_Inl:
  "family_loop tStamp mfs ts = Inl a \<Longrightarrow>
     a = Panic NilPointerDereference \<or>
     (\<exists>f t. Some f \<in> set mfs \<and> MetricFamily_Type f = Some t \<and> \<not> recognized t \<and>
        a = Fatal (UnknownMetricType t))"
proof (induction mfs arbitrary: ts)
  case Nil
  then show ?case by simp
next
  case (Cons mf mfs)
  show ?case
  proof (cases mf)
    case None
    with Cons.prems show ?thesis by simp
  next
    case (Some f)
    show ?thesis
    proof (cases "metric_loop tStamp f (MetricFamily_Metric f) ts")
      case (Inl b)
      with Some Cons.prems have "a = b" by simp
      with Inl Some show ?thesis by (auto dest: metric_loop_Inl)
    next
      case (Inr ts1)
      with Some Cons.prems have "family_loop tStamp mfs ts1 = Inl a" by simp
      from Cons.IH [OF this] show ?thesis by auto
    qed
  qed
qed

lemma metric_loop_no_panic:
  "metric_loop tStamp f ms ts = Inl a \<Longrightarrow> list_all (\<lambda>m. m \<noteq> None) ms \<Longrightarrow>
     MetricFamily_Type f \<noteq> None \<Longrightarrow> a \<noteq> Panic NilPointerDereference"
proof (induction ms arbitrary: ts)
  case Nil
  then show ?case by simp
next
  case (Cons m ms)
  show ?case
  proof (cases "metric_body tStamp f m")
    case (Inl b)
    with Cons.prems have "a = b" by simp
    with Inl Cons.prems show ?thesis
      by (auto simp: metric_body_def switch_value_def split: option.splits sum.splits if_splits)
  next
    case (Inr s)
    with Cons.prems have rest: "metric_loop tStamp f ms (ts @ [s]) = Inl a" by simp
    from Cons.prems have "list_all (\<lambda>m. m \<noteq> None) ms" by simp
    from Cons.IH [OF rest this Cons.prems(3)] show ?thesis .
  qed
qed

lemma family_loop_no_panic:
  "family_loop tStamp mfs ts = Inl a \<Longrightarrow> nil_free mfs \<Longrightarrow> a \<noteq> Panic NilPointerDereference"
proof (induction mfs arbitrary: ts)
  case Nil
  then show ?case by simp
next
  case (Cons mf mfs)
  from Cons.prems(2) obtain f where mf: "mf = Some f"
    and ty: "MetricFamily_Type f \<noteq> None"
    and ms: "list_all (\<lambda>m. m \<noteq> None) (MetricFamily_Metric f)"
    and rest: "nil_free mfs"
    by (auto simp: nil_free_def split: option.splits)
  show ?case
  proof (cases "metric_loop tStamp f (MetricFamily_Metric f) ts")
    case (Inl b)
    with mf Cons.prems have "a = b" by simp
    with Inl show ?thesis using metric_loop_no_panic [OF _ ms ty] by blast
  next
    case (Inr ts1)
    with mf Cons.prems have "family_loop tStamp mfs ts1 = Inl a" by simp
    from Cons.IH [OF this rest] show ?thesis .
  qed
qed

lemma unknown_not_well_formed:
  assumes "list_ex (\<lambda>mf. case mf of None \<Rightarrow> False
                         | Some f \<Rightarrow> unknown_type_family f \<and> MetricFamily_Metric f \<noteq> []) mfs"
  shows "\<not> well_formed mfs"
proof
  assume wf: "well_formed mfs"
  from assms obtain f where "Some f \<in> set mfs" "unknown_type_family f"
    "MetricFamily_Metric f \<noteq> []"
    by (auto simp: list_ex_iff split: option.splits)
  moreover from wf \<open>Some f \<in> set mfs\<close> have "well_formed_family f"
    by (auto simp: well_formed_def list_all_iff)
  ultimately show False
    by (auto simp: well_formed_family_def unknown_type_family_def split: list.splits option.splits)
qed

lemma family_loop_aborts:
  assumes "\<not> well_formed mfs"
  shows "\<exists>a. family_loop tStamp mfs ts = Inl a"
proof (cases "family_loop tStamp mfs ts")
  case (Inl a)
  then show ?thesis by blast
next
  case (Inr ts')
  from family_loop_wf [OF this] assms show ?thesis by contradiction
qed

lemma network_calls_abort_events: "network_calls (abort_events a) = []"
  by (cases a) simp_all

section \<open>One pass of the loop on the sample worlds\<close>

lemma sample_world_simps:
  "Gather (sample_world mfs code status) = Inr mfs"
  "time_Now_UnixNano (sample_world mfs code status) = sample_now"
  "proto_Marshal (sample_world mfs code status) wr = Inr [of_nat (length (Timeseries wr))]"
  "snappy_Encode (sample_world mfs code status) data = 255 # data"
  "url_Parse_error (sample_world mfs code status) sample_url = None"
  "client_Do (sample_world mfs code status) req = Inr \<lparr>StatusCode = code, Status = status\<rparr>"
  by (simp_all add: sample_world_def sample_url_def)

lemma exporter_headers:
  "Header_Set
     (Header_Set \<lparr>Method = method, URL = url, Header = [], Body = data\<rparr>
        ''Content-Encoding'' ''snappy'')
     ''Content-Type'' ''application/x-protobuf'' =
   \<lparr>Method = method, URL = url,
    Header = [(''Content-Encoding'', [''snappy'']),
              (''Content-Type'', [''application/x-protobuf''])],
    Body = data\<rparr>"
  by (simp add: Header_Set_def)

lemma sendToRemoteWrite_eq:
  "sendToRemoteWrite w data url =
     (case url_Parse_error w url of
        Some err \<Rightarrow> ([], Inl (''failed to create HTTP request: '' @ err))
      | None \<Rightarrow>
          (let req = \<lparr>Method = ''POST'', URL = url,
                       Header = [(''Content-Encoding'', [''snappy'']),
                                 (''Content-Type'', [''application/x-protobuf''])],
                       Body = data\<rparr>
           in (case client_Do w req of
                 Inl err \<Rightarrow> ([Http_Do req], Inl (''failed to send HTTP request: '' @ err))
               | Inr resp \<Rightarrow> ([Http_Do req], Inr resp))))"
  by (simp add: sendToRemoteWrite_def http_NewRequest_def exporter_headers Let_def
      split: option.splits sum.splits)

lemma sample_send:
  "sendToRemoteWrite (sample_world mfs code status) data sample_url =
     ([Http_Do (sample_request data)], Inr \<lparr>StatusCode = code, Status = status\<rparr>)"
  by (simp add: sendToRemoteWrite_eq sample_world_simps sample_request_def Let_def)

lemma iteration_delivered:
  assumes "Gather w = Inr mfs"
    and "createSnappyWithMetricFamily (time_Now_UnixNano w) mfs = (evs, Inr (wr, None))"
    and "proto_Marshal w wr = Inr data"
    and "sendToRemoteWrite w (snappy_Encode w data) url = (sent, Inr resp)"
  shows "RemoteWrite_iteration w url =
           (if StatusCode resp = 200 then (evs @ sent @ [Body_Close, Println_success], None)
            else (evs @ sent @ [Body_Close, Log_Fatalf (UnexpectedStatus (Status resp))],
                  Some (Fatal (UnexpectedStatus (Status resp)))))"
  using assms by (simp add: RemoteWrite_iteration_def http_StatusOK_def Let_def)

lemma sample_iteration_ok:
  "RemoteWrite_iteration (sample_world sample_snapshot 200 ''200 OK'') sample_url =
     ([Printf_Writing 4 1700000000123, Http_Do (sample_request [255, 4]), Body_Close,
       Println_success], None)"
  using iteration_delivered [OF sample_world_simps(1),
      of sample_snapshot 200 "''200 OK''" "[Printf_Writing 4 1700000000123]"
        "\<lparr>Timeseries = sample_series\<rparr>" "[4]" sample_url "[Http_Do (sample_request [255, 4])]"
        "\<lparr>StatusCode = 200, Status = ''200 OK''\<rparr>"]
  by (simp add: sample_world_simps sample_conversion sample_send) (simp add: sample_series_def)

lemma sample_iteration_503:
  "RemoteWrite_iteration (sample_world sample_snapshot 503 ''503 Service Unavailable'') sample_url =
     ([Printf_Writing 4 1700000000123, Http_Do (sample_request [255, 4]), Body_Close,
       Log_Fatalf (UnexpectedStatus ''503 Service Unavailable'')],
      Some (Fatal (UnexpectedStatus ''503 Service Unavailable'')))"
  using iteration_delivered [OF sample_world_simps(1),
      of sample_snapshot 503 "''503 Service Unavailable''" "[Printf_Writing 4 1700000000123]"
        "\<lparr>Timeseries = sample_series\<rparr>" "[4]" sample_url "[Http_Do (sample_request [255, 4])]"
        "\<lparr>StatusCode = 503, Status = ''503 Service Unavailable''\<rparr>"]
  by (simp add: sample_world_simps sample_conversion sample_send) (simp add: sample_series_def)

lemma idle_conversion:
  "createSnappyWithMetricFamily sample_now [Some idle_family] =
     ([Printf_Writing 0 1700000000123], Inr (\<lparr>Timeseries = []\<rparr>, None))"
  by (simp add: createSnappy_cases sample_tStamp idle_family_def)

lemma idle_iteration:
  "RemoteWrite_iteration (sample_world [Some idle_family] 200 ''200 OK'') sample_url =
     ([Printf_Writing 0 1700000000123, Http_Do (sample_request [255, 0]), Body_Close,
       Println_success], None)"
  using iteration_delivered [OF sample_world_simps(1),
      of "[Some idle_family]" 200 "''200 OK''" "[Printf_Writing 0 1700000000123]"
        "\<lparr>Timeseries = []\<rparr>" "[0]" sample_url "[Http_Do (sample_request [255, 0])]"
        "\<lparr>StatusCode = 200, Status = ''200 OK''\<rparr>"]
  by (simp add: sample_world_simps idle_conversion sample_send)

lemma odd_conversion:
  "createSnappyWithMetricFamily sample_now [Some up_family, Some odd_family] =
     ([Log_Fatalf (UnknownMetricType 5)], Inl (Fatal (UnknownMetricType 5)))"
  by (simp add: createSnappy_cases sample_tStamp sample_defs metric_body_def switch_value_def
      MetricType_defs getter_defs)

section \<open>Unknown metric types\<close>

text \<open>
  C5. If a family of the gathered snapshot that holds at least one metric declares a
  type the switch has no case for, the conversion does not return: the pass ends the
  process without any request handed to the network and without a write request. The
  end is the fatal error for an unknown metric type, or the panic of a \<^verbatim>\<open>nil\<close>
  dereference met earlier in the snapshot; in a snapshot without \<^verbatim>\<open>nil\<close> pointers it
  is the fatal error.
\<close>

theorem C5_unknown_type_stops_before_send:
  assumes "Gather w = Inr mfs"
    and "list_ex (\<lambda>mf. case mf of None \<Rightarrow> False
                       | Some f \<Rightarrow> unknown_type_family f \<and> MetricFamily_Metric f \<noteq> []) mfs"
  shows "\<exists>a. createSnappyWithMetricFamily (time_Now_UnixNano w) mfs = (abort_events a, Inl a) \<and>
           RemoteWrite_iteration w remoteWriteURL = (abort_events a, Some a) \<and>
           network_calls (fst (RemoteWrite_iteration w remoteWriteURL)) = [] \<and>
           (a = Panic NilPointerDereference \<or>
            (\<exists>t. \<not> recognized t \<and> a = Fatal (UnknownMetricType t))) \<and>
           (nil_free mfs \<longrightarrow> (\<exists>t. \<not> recognized t \<and> a = Fatal (UnknownMetricType t)))"
proof -
  let ?tStamp = "int64_quo (time_Now_UnixNano w) time_Millisecond"
  from family_loop_aborts [OF unknown_not_well_formed [OF assms(2)]] obtain a where
    a: "family_loop ?tStamp mfs [] = Inl a" by blast
  then have c: "createSnappyWithMetricFamily (time_Now_UnixNano w) mfs = (abort_events a, Inl a)"
    by (simp add: createSnappy_cases)
  with assms(1) have r: "RemoteWrite_iteration w remoteWriteURL = (abort_events a, Some a)"
    by (simp add: RemoteWrite_iteration_def)
  from family_loop_Inl [OF a] have k: "a = Panic NilPointerDereference \<or>
      (\<exists>t. \<not> recognized t \<and> a = Fatal (UnknownMetricType t))"
    by blast
  moreover have "nil_free mfs \<longrightarrow> (\<exists>t. \<not> recognized t \<and> a = Fatal (UnknownMetricType t))"
    using k family_loop_no_panic [OF a] by blast
  ultimately show ?thesis using c r by (simp add: network_calls_abort_events)
qed

text \<open>
  The condition on the metric list cannot be dropped. The switch runs once per metric,
  so a family of an unknown type that holds no metric goes unnoticed: the conversion
  returns the empty write request and the pass sends it.
\<close>

theorem C5_counterexample:
  "MetricFamily_Type idle_family = Some MetricType_GAUGE_HISTOGRAM \<and>
   \<not> recognized MetricType_GAUGE_HISTOGRAM \<and>
   Gather (sample_world [Some idle_family] 200 ''200 OK'') = Inr [Some idle_family] \<and>
   RemoteWrite_iteration (sample_world [Some idle_family] 200 ''200 OK'') sample_url =
     ([Printf_Writing 0 1700000000123, Http_Do (sample_request [255, 0]), Body_Close,
       Println_success], None)"
  by (simp add: idle_iteration sample_world_simps)
    (simp add: idle_family_def recognized_def MetricType_defs)

theorem C5_unknown_type_stops_before_send_witness:
  "Gather (sample_world [Some up_family, Some odd_family] 200 ''200 OK'') =
     Inr [Some up_family, Some odd_family] \<and>
   unknown_type_family odd_family \<and> MetricFamily_Metric odd_family \<noteq> [] \<and>
   nil_free [Some up_family, Some odd_family] \<and>
   RemoteWrite_iteration (sample_world [Some up_family, Some odd_family] 200 ''200 OK'')
       sample_url =
     ([Log_Fatalf (UnknownMetricType 5)], Some (Fatal (UnknownMetricType 5))) \<and>
   network_calls
     (fst (RemoteWrite_iteration (sample_world [Some up_family, Some odd_family] 200 ''200 OK'')
        sample_url)) = []"
proof -
  let ?mfs = "[Some up_family, Some odd_family]"
  let ?w = "sample_world ?mfs 200 ''200 OK''"
  have g: "Gather ?w = Inr ?mfs" by (simp add: sample_world_simps)
  have u: "unknown_type_family odd_family \<and> MetricFamily_Metric odd_family \<noteq> []"
    by (simp add: unknown_type_family_def odd_family_def recognized_def MetricType_defs)
  then have x: "list_ex (\<lambda>mf. case mf of None \<Rightarrow> False
                         | Some f \<Rightarrow> unknown_type_family f \<and> MetricFamily_Metric f \<noteq> []) ?mfs"
    by simp
  have n: "nil_free ?mfs"
    by (simp add: nil_free_def sample_defs)
  from C5_unknown_type_stops_before_send [OF g x, of sample_url]
  have "RemoteWrite_iteration ?w sample_url =
          ([Log_Fatalf (UnknownMetricType 5)], Some (Fatal (UnknownMetricType 5))) \<and>
        network_calls (fst (RemoteWrite_iteration ?w sample_url)) = []"
    by (auto simp: sample_world_simps odd_conversion)
  with g u n show ?thesis by simp
qed

lemma network_calls_append:
  "network_calls (xs @ ys) = network_calls xs @ network_calls ys"
  by (induction xs rule: network_calls.induct) simp_all

lemma createSnappy_event:
  assumes "ev \<in> set (fst (createSnappyWithMetricFamily now mfs))"
  shows "(\<exists>n t. ev = Printf_Writing n t) \<or> (\<exists>t. ev = Log_Fatalf (UnknownMetricType t))"
proof (cases "family_loop (int64_quo now time_Millisecond) mfs []")
  case (Inl a)
  from family_loop_Inl [OF Inl] assms Inl show ?thesis
    by (auto simp: createSnappy_cases)
next
  case (Inr ts)
  with assms show ?thesis by (simp add: createSnappy_cases)
qed

lemma createSnappy_no_calls:
  "network_calls (fst (createSnappyWithMetricFamily now mfs)) = []"
proof (cases "family_loop (int64_quo now time_Millisecond) mfs []")
  case (Inl a)
  then show ?thesis by (simp add: createSnappy_cases network_calls_abort_events)
next
  case (Inr ts)
  then show ?thesis by (simp add: createSnappy_cases)
qed

lemma createSnappy_no_close:
  "Body_Close \<notin> set (fst (createSnappyWithMetricFamily now mfs))"
  using createSnappy_event [of Body_Close now mfs] by auto

lemma createSnappy_error_nil:
  "snd (createSnappyWithMetricFamily now mfs) \<noteq> Inr (wr, Some e)"
  by (simp add: createSnappy_cases split: sum.splits)

lemma send_events:
  "sendToRemoteWrite w data url = (sent, r) \<Longrightarrow>
     sent = [] \<or>
     sent = [Http_Do \<lparr>Method = ''POST'', URL = url,
                      Header = [(''Content-Encoding'', [''snappy'']),
                                (''Content-Type'', [''application/x-protobuf''])],
                      Body = data\<rparr>]"
  by (auto simp: sendToRemoteWrite_eq Let_def split: option.splits sum.splits)

lemma send_response:
  "sendToRemoteWrite w data url = (sent, Inr resp) \<Longrightarrow>
     sent = [Http_Do \<lparr>Method = ''POST'', URL = url,
                      Header = [(''Content-Encoding'', [''snappy'']),
                                (''Content-Type'', [''application/x-protobuf''])],
                      Body = data\<rparr>]"
  by (auto simp: sendToRemoteWrite_eq Let_def split: option.splits sum.splits)

section \<open>Delivery\<close>

text \<open>
  C6. When a pass has a response in hand (the gather, the conversion, the marshalling
  and the send all went through), it completes if and only if the status code is 200.
  Exactly one request went to the network and the body was not closed before the
  response. On 200 the body is closed, the success line is printed and the loop goes on
  with the next tick. On any other code the body is closed, then \<^verbatim>\<open>log.Fatalf\<close> ends
  the process: the run ends there, whatever ticks were still to come, with no second
  request.
\<close>

theorem C6_delivery_status:
  assumes "Gather w = Inr mfs"
    and "createSnappyWithMetricFamily (time_Now_UnixNano w) mfs = (evs, Inr (wr, None))"
    and "proto_Marshal w wr = Inr data"
    and "sendToRemoteWrite w (snappy_Encode w data) url = (sent, Inr resp)"
    and "0 < sint frequency"
  shows "(snd (RemoteWrite_iteration w url) = None \<longleftrightarrow> StatusCode resp = 200) \<and>
         length (network_calls (evs @ sent)) = 1 \<and> Body_Close \<notin> set (evs @ sent) \<and>
         (StatusCode resp = 200 \<longrightarrow>
            RemoteWrite_iteration w url = (evs @ sent @ [Body_Close, Println_success], None) \<and>
            RemoteWrite url frequency (w # ws) =
              (evs @ sent @ [Body_Close, Println_success] @ fst (RemoteWrite url frequency ws),
               snd (RemoteWrite url frequency ws))) \<and>
         (StatusCode resp \<noteq> 200 \<longrightarrow>
            RemoteWrite_iteration w url =
              (evs @ sent @ [Body_Close, Log_Fatalf (UnexpectedStatus (Status resp))],
               Some (Fatal (UnexpectedStatus (Status resp)))) \<and>
            RemoteWrite url frequency (w # ws) =
              (evs @ sent @ [Body_Close, Log_Fatalf (UnexpectedStatus (Status resp))],
               Exited (Fatal (UnexpectedStatus (Status resp)))))"
proof -
  note it = iteration_delivered [OF assms(1-4)]
  have evs: "evs = fst (createSnappyWithMetricFamily (time_Now_UnixNano w) mfs)"
    using assms(2) by simp
  have calls: "length (network_calls (evs @ sent)) = 1"
    using send_response [OF assms(4)]
    by (simp add: network_calls_append evs createSnappy_no_calls)
  have closed: "Body_Close \<notin> set (evs @ sent)"
    using send_response [OF assms(4)] by (simp add: evs createSnappy_no_close)
  have ok: "RemoteWrite url frequency (w # ws) =
      (evs @ sent @ [Body_Close, Println_success] @ fst (RemoteWrite url frequency ws),
       snd (RemoteWrite url frequency ws))" if "StatusCode resp = 200"
    using that it assms(5) by (simp add: RemoteWrite_def split: prod.splits)
  have bad: "RemoteWrite url frequency (w # ws) =
      (evs @ sent @ [Body_Close, Log_Fatalf (UnexpectedStatus (Status resp))],
       Exited (Fatal (UnexpectedStatus (Status resp))))" if "StatusCode resp \<noteq> 200"
    using that it assms(5) by (simp add: RemoteWrite_def)
  show ?thesis using it calls closed ok bad by simp
qed

theorem C6_delivery_status_witness:
  "RemoteWrite sample_url 5000000000
     [sample_world sample_snapshot 200 ''200 OK'',
      sample_world sample_snapshot 503 ''503 Service Unavailable'',
      sample_world sample_snapshot 200 ''200 OK''] =
     ([Printf_Writing 4 1700000000123, Http_Do (sample_request [255, 4]), Body_Close,
       Println_success,
       Printf_Writing 4 1700000000123, Http_Do (sample_request [255, 4]), Body_Close,
       Log_Fatalf (UnexpectedStatus ''503 Service Unavailable'')],
      Exited (Fatal (UnexpectedStatus ''503 Service Unavailable'')))"
proof -
  let ?ok = "sample_world sample_snapshot 200 ''200 OK''"
  let ?bad = "sample_world sample_snapshot 503 ''503 Service Unavailable''"
  have f: "0 < sint (5000000000 :: int64)" by simp
  have c: "createSnappyWithMetricFamily (time_Now_UnixNano (sample_world sample_snapshot code status))
        sample_snapshot =
      ([Printf_Writing 4 1700000000123], Inr (\<lparr>Timeseries = sample_series\<rparr>, None))"
    for code status
    by (simp add: sample_world_simps sample_conversion)
  have m: "proto_Marshal (sample_world sample_snapshot code status) \<lparr>Timeseries = sample_series\<rparr> =
      Inr [4]" for code status
    by (simp add: sample_world_simps sample_series_def)
  have s: "sendToRemoteWrite (sample_world sample_snapshot code status)
      (snappy_Encode (sample_world sample_snapshot code status) [4]) sample_url =
      ([Http_Do (sample_request [255, 4])], Inr \<lparr>StatusCode = code, Status = status\<rparr>)"
    for code status
    by (simp add: sample_world_simps sample_send)
  from C6_delivery_status [OF sample_world_simps(1) c m s f, of 503 "''503 Service Unavailable''" "[?ok]"]
  have second: "RemoteWrite sample_url 5000000000 [?bad, ?ok] =
      ([Printf_Writing 4 1700000000123, Http_Do (sample_request [255, 4]), Body_Close,
        Log_Fatalf (UnexpectedStatus ''503 Service Unavailable'')],
       Exited (Fatal (UnexpectedStatus ''503 Service Unavailable'')))"
    by simp
  from C6_delivery_status [OF sample_world_simps(1) c m s f, of 200 "''200 OK''" "[?bad, ?ok]"]
  show ?thesis by (simp add: second)
qed


section \<open>The request\<close>

lemma iteration_calls:
  "network_calls (fst (RemoteWrite_iteration w url)) = [] \<or>
   (\<exists>mfs wr data.
      Gather w = Inr mfs \<and>
      snd (createSnappyWithMetricFamily (time_Now_UnixNano w) mfs) = Inr (wr, None) \<and>
      proto_Marshal w wr = Inr data \<and>
      network_calls (fst (RemoteWrite_iteration w url)) =
        [\<lparr>Method = ''POST'', URL = url,
          Header = [(''Content-Encoding'', [''snappy'']),
                    (''Content-Type'', [''application/x-protobuf''])],
          Body = snappy_Encode w data\<rparr>])"
proof (cases "Gather w")
  case (Inl err)
  then show ?thesis by (simp add: RemoteWrite_iteration_def)
next
  case g: (Inr mfs)
  obtain evs r where c: "createSnappyWithMetricFamily (time_Now_UnixNano w) mfs = (evs, r)"
    by (cases "createSnappyWithMetricFamily (time_Now_UnixNano w) mfs")
  have evs: "network_calls evs = []"
    using createSnappy_no_calls [of "time_Now_UnixNano w" mfs] c by simp
  show ?thesis
  proof (cases r)
    case (Inl a)
    with g c evs show ?thesis by (simp add: RemoteWrite_iteration_def)
  next
    case (Inr p)
    obtain wr err where p: "p = (wr, err)" by (cases p)
    from createSnappy_error_nil [of "time_Now_UnixNano w" mfs wr] c Inr p
    have err: "err = None" by (cases err) auto
    show ?thesis
    proof (cases "proto_Marshal w wr")
      case (Inl e)
      with g c Inr p err evs show ?thesis
        by (simp add: RemoteWrite_iteration_def network_calls_append)
    next
      case m: (Inr data)
      obtain sent res where s: "sendToRemoteWrite w (snappy_Encode w data) url = (sent, res)"
        by (cases "sendToRemoteWrite w (snappy_Encode w data) url")
      have calls: "network_calls (fst (RemoteWrite_iteration w url)) = network_calls sent"
        using g c Inr p err evs m s
        by (cases res) (simp_all add: RemoteWrite_iteration_def network_calls_append Let_def)
      from send_events [OF s] show ?thesis
      proof
        assume "sent = []"
        with calls show ?thesis by simp
      next
        assume "sent = [Http_Do \<lparr>Method = ''POST'', URL = url,
                      Header = [(''Content-Encoding'', [''snappy'']),
                                (''Content-Type'', [''application/x-protobuf''])],
                      Body = snappy_Encode w data\<rparr>]"
        with calls g c Inr p err m show ?thesis by simp
      qed
    qed
  qed
qed

text \<open>
  C7. \<open>sendToRemoteWrite\<close> hands the network no request when the URL does not parse,
  and otherwise exactly one: a \<^verbatim>\<open>POST\<close> to the given URL whose headers are exactly
  \<^verbatim>\<open>Content-Encoding: snappy\<close> and \<^verbatim>\<open>Content-Type: application/x-protobuf\<close> and whose
  body is the given payload. Every request of a pass of the loop has that method, URL
  and headers, and its body is the Snappy encoding of the marshalled write request of
  that pass.
\<close>

theorem C7_request_shape:
  "network_calls (fst (sendToRemoteWrite w data url)) =
     (case url_Parse_error w url of
        Some err \<Rightarrow> []
      | None \<Rightarrow>
          [\<lparr>Method = ''POST'', URL = url,
            Header = [(''Content-Encoding'', [''snappy'']),
                      (''Content-Type'', [''application/x-protobuf''])],
            Body = data\<rparr>]) \<and>
   list_all
     (\<lambda>req. Method req = ''POST'' \<and> URL req = url \<and>
            Header req = [(''Content-Encoding'', [''snappy'']),
                          (''Content-Type'', [''application/x-protobuf''])] \<and>
            (\<exists>mfs wr payload.
               Gather w = Inr mfs \<and>
               snd (createSnappyWithMetricFamily (time_Now_UnixNano w) mfs) = Inr (wr, None) \<and>
               proto_Marshal w wr = Inr payload \<and> Body req = snappy_Encode w payload))
     (network_calls (fst (RemoteWrite_iteration w url)))"
proof -
  have "network_calls (fst (sendToRemoteWrite w data url)) =
     (case url_Parse_error w url of
        Some err \<Rightarrow> []
      | None \<Rightarrow>
          [\<lparr>Method = ''POST'', URL = url,
            Header = [(''Content-Encoding'', [''snappy'']),
                      (''Content-Type'', [''application/x-protobuf''])],
            Body = data\<rparr>])"
    by (simp add: sendToRemoteWrite_eq Let_def split: option.splits sum.splits)
  moreover from iteration_calls [of w url] have "list_all
     (\<lambda>req. Method req = ''POST'' \<and> URL req = url \<and>
            Header req = [(''Content-Encoding'', [''snappy'']),
                          (''Content-Type'', [''application/x-protobuf''])] \<and>
            (\<exists>mfs wr payload.
               Gather w = Inr mfs \<and>
               snd (createSnappyWithMetricFamily (time_Now_UnixNano w) mfs) = Inr (wr, None) \<and>
               proto_Marshal w wr = Inr payload \<and> Body req = snappy_Encode w payload))
     (network_calls (fst (RemoteWrite_iteration w url)))"
    by auto
  ultimately show ?thesis by simp
qed

theorem C7_request_shape_witness:
  "url_Parse_error (sample_world sample_snapshot 200 ''200 OK'') sample_url = None \<and>
   network_calls
     (fst (sendToRemoteWrite (sample_world sample_snapshot 200 ''200 OK'') [255, 4] sample_url)) =
     [\<lparr>Method = ''POST'', URL = ''http://localhost:9090/api/v1/write'',
       Header = [(''Content-Encoding'', [''snappy'']),
                 (''Content-Type'', [''application/x-protobuf''])],
       Body = [255, 4]\<rparr>]"
  using C7_request_shape [of "sample_world sample_snapshot 200 ''200 OK''" "[255, 4]" sample_url]
  by (simp add: sample_world_simps) (simp add: sample_url_def)

section \<open>The empty snapshot\<close>

lemma empty_family_loop:
  "list_all (\<lambda>mf. case mf of None \<Rightarrow> False | Some f \<Rightarrow> MetricFamily_Metric f = []) mfs \<Longrightarrow>
     family_loop tStamp mfs ts = Inr ts"
  by (induction mfs) (auto split: option.splits)

text \<open>
  C8. For a snapshot without families, or whose families all hold no metric, the
  conversion returns a write request with an empty \<open>Timeseries\<close> list, and the pass
  still sends it: once the empty request is marshalled and the URL parses, exactly one
  \<^verbatim>\<open>POST\<close> goes to the endpoint, with the encoded empty envelope as its body.
\<close>

theorem C8_empty_snapshot_still_sent:
  assumes "list_all (\<lambda>mf. case mf of None \<Rightarrow> False | Some f \<Rightarrow> MetricFamily_Metric f = []) mfs"
    and "Gather w = Inr mfs"
    and "proto_Marshal w \<lparr>Timeseries = []\<rparr> = Inr data"
    and "url_Parse_error w url = None"
  shows "snd (createSnappyWithMetricFamily (time_Now_UnixNano w) mfs) =
           Inr (\<lparr>Timeseries = []\<rparr>, None) \<and>
         network_calls (fst (RemoteWrite_iteration w url)) =
           [\<lparr>Method = ''POST'', URL = url,
             Header = [(''Content-Encoding'', [''snappy'']),
                       (''Content-Type'', [''application/x-protobuf''])],
             Body = snappy_Encode w data\<rparr>]"
proof -
  have c: "createSnappyWithMetricFamily (time_Now_UnixNano w) mfs =
      ([Printf_Writing 0 (int64_quo (time_Now_UnixNano w) time_Millisecond)],
       Inr (\<lparr>Timeseries = []\<rparr>, None))"
    by (simp add: createSnappy_cases empty_family_loop [OF assms(1)])
  obtain sent res where s: "sendToRemoteWrite w (snappy_Encode w data) url = (sent, res)"
    by (cases "sendToRemoteWrite w (snappy_Encode w data) url")
  have sent: "sent = [Http_Do \<lparr>Method = ''POST'', URL = url,
             Header = [(''Content-Encoding'', [''snappy'']),
                       (''Content-Type'', [''application/x-protobuf''])],
             Body = snappy_Encode w data\<rparr>]"
    using s assms(4) by (auto simp: sendToRemoteWrite_eq Let_def split: sum.splits)
  have "network_calls (fst (RemoteWrite_iteration w url)) = network_calls sent"
    using assms(2,3) c s
    by (cases res) (simp_all add: RemoteWrite_iteration_def network_calls_append Let_def)
  with sent c show ?thesis by simp
qed

theorem C8_empty_snapshot_still_sent_witness:
  "Gather (sample_world [] 200 ''200 OK'') = Inr [] \<and>
   Gather (sample_world [Some idle_family] 200 ''200 OK'') = Inr [Some idle_family] \<and>
   MetricFamily_Metric idle_family = [] \<and>
   proto_Marshal (sample_world [] 200 ''200 OK'') \<lparr>Timeseries = []\<rparr> = Inr [0] \<and>
   url_Parse_error (sample_world [] 200 ''200 OK'') sample_url = None \<and>
   snd (createSnappyWithMetricFamily sample_now []) = Inr (\<lparr>Timeseries = []\<rparr>, None) \<and>
   snd (createSnappyWithMetricFamily sample_now [Some idle_family]) =
     Inr (\<lparr>Timeseries = []\<rparr>, None) \<and>
   network_calls (fst (RemoteWrite_iteration (sample_world [] 200 ''200 OK'') sample_url)) =
     [sample_request [255, 0]] \<and>
   network_calls
     (fst (RemoteWrite_iteration (sample_world [Some idle_family] 200 ''200 OK'') sample_url)) =
     [sample_request [255, 0]]"
proof -
  have m: "proto_Marshal (sample_world mfs 200 ''200 OK'') \<lparr>Timeseries = []\<rparr> = Inr [0]" for mfs
    by (simp add: sample_world_simps)
  have i: "MetricFamily_Metric idle_family = []" by (simp add: idle_family_def)
  have e1: "list_all (\<lambda>mf. case mf of None \<Rightarrow> False | Some f \<Rightarrow> MetricFamily_Metric f = [])
      ([] :: MetricFamily option list)"
    by simp
  have e2: "list_all (\<lambda>mf. case mf of None \<Rightarrow> False | Some f \<Rightarrow> MetricFamily_Metric f = [])
      [Some idle_family]"
    using i by simp
  from C8_empty_snapshot_still_sent [OF e1 sample_world_simps(1) m sample_world_simps(5)]
  have a: "snd (createSnappyWithMetricFamily sample_now []) = Inr (\<lparr>Timeseries = []\<rparr>, None) \<and>
    network_calls (fst (RemoteWrite_iteration (sample_world [] 200 ''200 OK'') sample_url)) =
     [sample_request [255, 0]]"
    by (simp add: sample_world_simps sample_request_def)
  from C8_empty_snapshot_still_sent [OF e2 sample_world_simps(1) m sample_world_simps(5)]
  have b: "snd (createSnappyWithMetricFamily sample_now [Some idle_family]) =
      Inr (\<lparr>Timeseries = []\<rparr>, None) \<and>
    network_calls
      (fst (RemoteWrite_iteration (sample_world [Some idle_family] 200 ''200 OK'') sample_url)) =
     [sample_request [255, 0]]"
    by (simp add: sample_world_simps sample_request_def)
  from a b i m show ?thesis by (simp add: sample_world_simps)
qed

lemma iteration_event:
  assumes "ev \<in> set (fst (RemoteWrite_iteration w url))"
  shows "ev \<noteq> Log_Fatalf (CreateFailed e)"
proof (cases "Gather w")
  case (Inl err)
  with assms show ?thesis by (auto simp: RemoteWrite_iteration_def)
next
  case g: (Inr mfs)
  obtain evs r where c: "createSnappyWithMetricFamily (time_Now_UnixNano w) mfs = (evs, r)"
    by (cases "createSnappyWithMetricFamily (time_Now_UnixNano w) mfs")
  have evs: "Log_Fatalf (CreateFailed e) \<notin> set evs"
    using createSnappy_event [of "Log_Fatalf (CreateFailed e)" "time_Now_UnixNano w" mfs] c
    by auto
  show ?thesis
  proof (cases r)
    case (Inl a)
    with g c evs assms show ?thesis by (auto simp: RemoteWrite_iteration_def)
  next
    case (Inr p)
    obtain wr err where p: "p = (wr, err)" by (cases p)
    from createSnappy_error_nil [of "time_Now_UnixNano w" mfs wr] c Inr p
    have err: "err = None" by (cases err) auto
    show ?thesis
    proof (cases "proto_Marshal w wr")
      case (Inl e')
      with g c Inr p err evs assms show ?thesis
        by (auto simp: RemoteWrite_iteration_def)
    next
      case m: (Inr data)
      obtain sent res where s: "sendToRemoteWrite w (snappy_Encode w data) url = (sent, res)"
        by (cases "sendToRemoteWrite w (snappy_Encode w data) url")
      from send_events [OF s] have sent: "Log_Fatalf (CreateFailed e) \<notin> set sent" by auto
      show ?thesis using g c Inr p err evs m s sent assms
        by (cases res) (auto simp: RemoteWrite_iteration_def Let_def split: if_splits)
    qed
  qed
qed

lemma iteration_end:
  "snd (RemoteWrite_iteration w url) \<noteq> Some (Fatal (CreateFailed e))"
proof (cases "Gather w")
  case (Inl err)
  then show ?thesis by (simp add: RemoteWrite_iteration_def)
next
  case g: (Inr mfs)
  obtain evs r where c: "createSnappyWithMetricFamily (time_Now_UnixNano w) mfs = (evs, r)"
    by (cases "createSnappyWithMetricFamily (time_Now_UnixNano w) mfs")
  show ?thesis
  proof (cases r)
    case (Inl a)
    with c have "family_loop (int64_quo (time_Now_UnixNano w) time_Millisecond) mfs [] = Inl a"
      by (auto simp: createSnappy_cases split: sum.splits)
    from family_loop_Inl [OF this] have "a \<noteq> Fatal (CreateFailed e)" by auto
    with g c Inl show ?thesis by (simp add: RemoteWrite_iteration_def)
  next
    case (Inr p)
    obtain wr err where p: "p = (wr, err)" by (cases p)
    from createSnappy_error_nil [of "time_Now_UnixNano w" mfs wr] c Inr p
    have err: "err = None" by (cases err) auto
    show ?thesis
    proof (cases "proto_Marshal w wr")
      case (Inl e')
      with g c Inr p err show ?thesis by (simp add: RemoteWrite_iteration_def)
    next
      case m: (Inr data)
      obtain sent res where s: "sendToRemoteWrite w (snappy_Encode w data) url = (sent, res)"
        by (cases "sendToRemoteWrite w (snappy_Encode w data) url")
      show ?thesis using g c Inr p err m s
        by (cases res) (simp_all add: RemoteWrite_iteration_def Let_def)
    qed
  qed
qed

section \<open>The error result of the conversion\<close>

text \<open>
  C9. \<open>createSnappyWithMetricFamily\<close> never returns an error that is not \<^verbatim>\<open>nil\<close>: it
  either returns a write request with a \<^verbatim>\<open>nil\<close> error or ends the process. So the
  branch of \<open>RemoteWrite\<close> that follows its call is never taken: no pass ends with, or
  logs, the failure of that branch.
\<close>

theorem C9_error_result_is_nil:
  "snd (createSnappyWithMetricFamily now mfs) \<noteq> Inr (wr, Some e) \<and>
   ((\<exists>wr'. snd (createSnappyWithMetricFamily now mfs) = Inr (wr', None)) \<or>
    (\<exists>a. snd (createSnappyWithMetricFamily now mfs) = Inl a)) \<and>
   snd (RemoteWrite_iteration w remoteWriteURL) \<noteq> Some (Fatal (CreateFailed e)) \<and>
   Log_Fatalf (CreateFailed e) \<notin> set (fst (RemoteWrite_iteration w remoteWriteURL))"
proof -
  have "(\<exists>wr'. snd (createSnappyWithMetricFamily now mfs) = Inr (wr', None)) \<or>
    (\<exists>a. snd (createSnappyWithMetricFamily now mfs) = Inl a)"
    by (simp add: createSnappy_cases split: sum.splits)
  moreover have "Log_Fatalf (CreateFailed e) \<notin> set (fst (RemoteWrite_iteration w remoteWriteURL))"
    using iteration_event [of "Log_Fatalf (CreateFailed e)" w remoteWriteURL e] by blast
  ultimately show ?thesis
    using createSnappy_error_nil [of now mfs wr e] iteration_end [of w remoteWriteURL e]
    by blast
qed

theorem C9_error_result_is_nil_witness:
  "snd (createSnappyWithMetricFamily sample_now sample_snapshot) =
     Inr (\<lparr>Timeseries = sample_series\<rparr>, None) \<and>
   snd (createSnappyWithMetricFamily sample_now sample_snapshot) \<noteq>
     Inr (\<lparr>Timeseries = sample_series\<rparr>, Some ''failed'') \<and>
   snd (createSnappyWithMetricFamily sample_now [Some up_family, Some odd_family]) =
     Inl (Fatal (UnknownMetricType 5)) \<and>
   snd (RemoteWrite_iteration (sample_world sample_snapshot 200 ''200 OK'') sample_url) = None \<and>
   snd (RemoteWrite_iteration (sample_world sample_snapshot 200 ''200 OK'') sample_url) \<noteq>
     Some (Fatal (CreateFailed ''failed'')) \<and>
   Log_Fatalf (CreateFailed ''failed'') \<notin>
     set (fst (RemoteWrite_iteration (sample_world sample_snapshot 200 ''200 OK'') sample_url))"
proof -
  from C9_error_result_is_nil [of sample_now sample_snapshot "\<lparr>Timeseries = sample_series\<rparr>"
      "''failed''" "sample_world sample_snapshot 200 ''200 OK''" sample_url]
  have "snd (createSnappyWithMetricFamily sample_now sample_snapshot) \<noteq>
       Inr (\<lparr>Timeseries = sample_series\<rparr>, Some ''failed'') \<and>
     snd (RemoteWrite_iteration (sample_world sample_snapshot 200 ''200 OK'') sample_url) \<noteq>
       Some (Fatal (CreateFailed ''failed'')) \<and>
     Log_Fatalf (CreateFailed ''failed'') \<notin>
       set (fst (RemoteWrite_iteration (sample_world sample_snapshot 200 ''200 OK'') sample_url))"
    by blast
  then show ?thesis
    by (simp add: sample_conversion odd_conversion sample_iteration_ok)
qed

section \<open>Metrics without a payload\<close>

lemma metric_body_absent:
  assumes "metric_body tStamp f (Some m) = Inr s"
    and "MetricFamily_Type f = Some MetricType_COUNTER \<and> Metric_Counter m = None \<or>
         MetricFamily_Type f = Some MetricType_GAUGE \<and> Metric_Gauge m = None \<or>
         MetricFamily_Type f = Some MetricType_UNTYPED \<and> Metric_Untyped m = None \<or>
         MetricFamily_Type f = Some MetricType_SUMMARY \<and> Metric_Summary m = None \<or>
         MetricFamily_Type f = Some MetricType_HISTOGRAM \<and> Metric_Histogram m = None"
  shows "Samples s = [\<lparr>Sample_Value = 0, Sample_Timestamp = tStamp\<rparr>]"
proof -
  from metric_body_Samples [OF assms(1)] obtain t v where
    t: "MetricFamily_Type f = Some t" and v: "switch_value t m = Inr v" and
    s: "Samples s = [\<lparr>Sample_Value = v, Sample_Timestamp = tStamp\<rparr>]"
    by blast
  from assms(2) t v have "v = 0"
    by (auto simp: switch_value_cases Counter_GetValue_def Gauge_GetValue_def
        Untyped_GetValue_def Summary_GetSampleSum_def Histogram_GetSampleSum_def)
  with s show ?thesis by simp
qed

text \<open>
  C10. On every snapshot the conversion accepts it returns, whatever payloads are
  there; and where the family declares one of the five types and the metric at a
  position has no payload of that type, the series at that position has the single
  sample of value 0.0 (and the common timestamp).
\<close>

theorem C10_absent_payload_is_zero:
  assumes "well_formed mfs"
  shows "\<exists>wr. snd (createSnappyWithMetricFamily now mfs) = Inr (wr, None) \<and>
           list_all2
             (\<lambda>(f, m) s.
                (MetricFamily_Type f = Some MetricType_COUNTER \<and> Metric_Counter m = None \<or>
                 MetricFamily_Type f = Some MetricType_GAUGE \<and> Metric_Gauge m = None \<or>
                 MetricFamily_Type f = Some MetricType_UNTYPED \<and> Metric_Untyped m = None \<or>
                 MetricFamily_Type f = Some MetricType_SUMMARY \<and> Metric_Summary m = None \<or>
                 MetricFamily_Type f = Some MetricType_HISTOGRAM \<and> Metric_Histogram m = None)
                \<longrightarrow> Samples s =
                      [\<lparr>Sample_Value = 0, Sample_Timestamp = int64_quo now time_Millisecond\<rparr>])
             (snapshot_metrics mfs) (Timeseries wr)"
  by (rule builder_pointwise [OF assms]) (use metric_body_absent in blast)

theorem C10_absent_payload_is_zero_witness:
  "well_formed sample_snapshot \<and>
   snd (createSnappyWithMetricFamily sample_now sample_snapshot) =
     Inr (\<lparr>Timeseries = sample_series\<rparr>, None) \<and>
   snapshot_metrics sample_snapshot ! 2 = (runs_family, bare_metric) \<and>
   MetricFamily_Type runs_family = Some MetricType_COUNTER \<and>
   Metric_Counter bare_metric = None \<and>
   Samples (sample_series ! 2) = [\<lparr>Sample_Value = 0, Sample_Timestamp = 1700000000123\<rparr>]"
proof -
  have h: "well_formed sample_snapshot" by (rule sample_well_formed)
  have t: "MetricFamily_Type runs_family = Some MetricType_COUNTER"
    "Metric_Counter bare_metric = None"
    by (simp_all add: sample_defs)
  from C10_absent_payload_is_zero [OF h, of sample_now]
  have "Samples (sample_series ! 2) = [\<lparr>Sample_Value = 0, Sample_Timestamp = 1700000000123\<rparr>]"
    by (simp add: sample_conversion sample_snapshot_metrics sample_tStamp t)
      (simp add: sample_series_def)
  with h t show ?thesis by (simp add: sample_conversion sample_snapshot_metrics)
qed

end
